theory Spec2Isabelle
  imports Main "HOL-Library.Sublist" "HOL-Library.Char_ord" "HOL-Library.List_Lexorder"
    "HOL-Library.Signed_Division"
begin

section \<open>Shared vocabulary: errors, dates, events, messages, commands\<close>

text \<open>
  GoDash is a Bubble Tea program: every panel has an \<open>Update\<close> method that takes a
  message and returns the new panel together with a batch of commands. The Go code
  mutates the panel through a pointer receiver and returns a copy; here each
  \<open>Update\<close> is a function from the old panel to the new one.

  Errors are values. \<open>ErrNotExist\<close> is the error for which \<open>os.IsNotExist\<close> holds,
  \<open>ErrIO\<close> any other file-system error, \<open>ErrSyntax\<close> and \<open>ErrType\<close> the two kinds of
  error of \<open>json.Unmarshal\<close>, \<open>ErrAuthRequired\<close> the calendar's sentinel error and
  \<open>ErrFetch\<close> any other failure of a calendar request.
\<close>

datatype error = ErrNotExist | ErrIO | ErrSyntax | ErrType | ErrAuthRequired | ErrFetch

text \<open>
  A \<open>time.Time\<close> as the calendar uses it: only \<open>Year()\<close>, \<open>Month()\<close> and \<open>Day()\<close> are ever
  read. An instant of the clock is a number of nanoseconds.
\<close>

record date =
  Year :: int
  Month :: nat
  Day :: nat

type_synonym instant = int

text \<open>
  A calendar event (\<open>calendar.Event\<close> of the Google API client): the summary and the
  two fields of its start, \<open>Start.DateTime\<close> and \<open>Start.Date\<close>. Every event carries a
  start, as in the persisted cache format.
\<close>

record event =
  Summary :: string
  Start_DateTime :: string
  Start_Date :: string

datatype mouse_action = MouseActionPress | MouseActionRelease | MouseActionMotion

datatype mouse_button = MouseButtonNone | MouseButtonLeft | MouseButtonMiddle | MouseButtonRight

record mouse =
  X :: int
  Y :: int
  Action :: mouse_action
  Button :: mouse_button

text \<open>
  The messages the dashboard dispatches. A key press is identified by \<open>msg.String()\<close>.
  \<open>TickMsg\<close> is \<open>clock.TickMsg\<close>, \<open>SpinnerTickMsg\<close> the spinner's own tick; \<open>OtherMsg\<close>
  stands for every message type the code does not inspect.
\<close>

datatype msg =
    KeyMsg string
  | MouseMsg mouse
  | TickMsg
  | SpinnerTickMsg
  | EventsMsg string "event list"
  | EventsErrMsg string error
  | WeatherMsg string
  | WeatherErrMsg error
  | EditNoteMsg string string
  | OtherMsg

text \<open>
  Commands: \<open>Tick\<close> is \<open>clock.Tick()\<close>, \<open>Blink\<close> is \<open>textinput.Blink\<close>,
  \<open>FetchEventsForMonth d\<close> the calendar's fetch command, \<open>Quit\<close> is \<open>tea.Quit\<close>, and
  \<open>LibCmd n\<close> the command number \<open>n\<close> of a library component (the components return
  their own commands, never one of the program's). A batch (\<open>tea.Batch\<close>) is the list
  of its commands; a \<open>nil\<close> command is the empty list.
\<close>

datatype cmd = Tick | Blink | FetchEventsForMonth date | Quit | LibCmd nat

subsection \<open>Key bindings\<close>

text \<open>
  \<open>key.Binding\<close> holds the keys and a disabled flag; \<open>key.Matches\<close> holds when some
  enabled binding lists the pressed key.
\<close>

record binding =
  b_keys :: "string list"
  b_disabled :: bool

definition NewBinding :: "string list \<Rightarrow> binding" where
  "NewBinding ks = \<lparr>b_keys = ks, b_disabled = False\<rparr>"

definition SetEnabled :: "bool \<Rightarrow> binding \<Rightarrow> binding" where
  "SetEnabled v b = b\<lparr>b_disabled := (\<not> v)\<rparr>"

definition Enabled :: "binding \<Rightarrow> bool" where
  "Enabled b = (\<not> b_disabled b \<and> b_keys b \<noteq> [])"

definition Matches :: "string \<Rightarrow> binding list \<Rightarrow> bool" where
  "Matches k bs = list_ex (\<lambda>b. Enabled b \<and> k \<in> set (b_keys b)) bs"

section \<open>The todo panel (widgets/todo/todo.go)\<close>

record task =
  Title :: string
  Description :: string
  Done :: bool

datatype ListState = ListStateDefault | ListStateAdding | ListStateEditing

subsection \<open>The list and text-input components\<close>

text \<open>
  \<open>list.Model\<close> of the bubbles library, as far as the panel uses it: the items, the
  items that pass the filter, the filter state and the index of the cursor.
  \<open>SelectedItem\<close> reads the visible items and returns \<open>nil\<close> (here \<open>None\<close>) when the
  index is out of range; \<open>InsertItem\<close> past the end appends; \<open>SetItem\<close> writes into the
  items (the panel calls it only with the index of a selected item).
\<close>

datatype FilterState = Unfiltered | Filtering | FilterApplied

record list_model =
  items :: "task list"
  filteredItems :: "task list"
  filterState :: FilterState
  index :: nat

definition VisibleItems :: "list_model \<Rightarrow> task list" where
  "VisibleItems l = (if filterState l = Unfiltered then items l else filteredItems l)"

definition SelectedItem :: "list_model \<Rightarrow> task option" where
  "SelectedItem l =
     (if index l < length (VisibleItems l) then Some (VisibleItems l ! index l) else None)"

definition InsertItem :: "nat \<Rightarrow> task \<Rightarrow> list_model \<Rightarrow> list_model" where
  "InsertItem i t l = l\<lparr>items := take i (items l) @ [t] @ drop i (items l)\<rparr>"

definition SetItem :: "nat \<Rightarrow> task \<Rightarrow> list_model \<Rightarrow> list_model" where
  "SetItem i t l = l\<lparr>items := (items l)[i := t]\<rparr>"

text \<open>\<open>textinput.Model\<close>: the buffer and the focus flag.\<close>

record textinput =
  Value :: string
  Focused :: bool

definition Reset :: "textinput \<Rightarrow> textinput" where
  "Reset ti = ti\<lparr>Value := []\<rparr>"

definition Focus :: "textinput \<Rightarrow> textinput" where
  "Focus ti = ti\<lparr>Focused := True\<rparr>"

definition SetValue :: "string \<Rightarrow> textinput \<Rightarrow> textinput" where
  "SetValue s ti = ti\<lparr>Value := s\<rparr>"

text \<open>The two layouts the calendar hands to \<open>time.Parse\<close>.\<close>

datatype layout = RFC3339 | DateOnly

text \<open>The date picker (bubble-datepicker): its time, its focus and the selected flag.\<close>

datatype dp_focus = FocusNone | FocusHeaderMonth | FocusHeaderYear | FocusCalendar

record datepicker =
  Time :: date
  dp_Focused :: dp_focus
  Selected :: bool

definition SetFocus :: "dp_focus \<Rightarrow> datepicker \<Rightarrow> datepicker" where
  "SetFocus f dp = dp\<lparr>dp_Focused := f\<rparr>"

definition SelectDate :: "datepicker \<Rightarrow> datepicker" where
  "SelectDate dp = dp\<lparr>Selected := True\<rparr>"

text \<open>
  What the panels take from libraries and do not define themselves: the \<open>Update\<close>
  methods of the list, the text input, the date picker and the spinner,
  \<open>list.RemoveItem\<close>, \<open>time.Parse\<close> for the two layouts the calendar uses (the
  result is the year, month and day of the parsed time, \<open>None\<close> when parsing fails)
  and the markdown renderer. The notes panel is kept abstract (type \<open>'n\<close>) with its
  \<open>Update\<close> method: no property below depends on what it does.
\<close>

record 'n lib =
  list_Update :: "msg \<Rightarrow> list_model \<Rightarrow> list_model \<times> nat list"
  list_RemoveItem :: "nat \<Rightarrow> list_model \<Rightarrow> list_model"
  textinput_Update :: "msg \<Rightarrow> textinput \<Rightarrow> textinput \<times> nat list"
  datepicker_Update :: "msg \<Rightarrow> datepicker \<Rightarrow> datepicker \<times> nat list"
  spinner_Update :: "msg \<Rightarrow> nat \<Rightarrow> nat \<times> nat list"
  time_Parse :: "layout \<Rightarrow> string \<Rightarrow> date option"
  glamour_Render :: "string \<Rightarrow> string option"
  notes_Update :: "msg \<Rightarrow> bool \<Rightarrow> 'n \<Rightarrow> 'n \<times> nat list"

subsection \<open>The panel\<close>

record todo_KeyMap =
  tk_AddTask :: binding
  tk_Delete :: binding
  tk_Toggle :: binding
  tk_EditTask :: binding
  tk_SaveTask :: binding
  tk_Confirm :: binding
  tk_Cancel :: binding

record todo_Model =
  List :: list_model
  TextInput :: textinput
  State :: ListState
  todo_keys :: todo_KeyMap
  path :: string

text \<open>
  What a panel does to the outside world during one \<open>Update\<close>: a call of
  \<open>saveTasks\<close> with the path and the items, the detached \<open>SaveCalendarCache\<close>, or
  opening a URL in the browser.
\<close>

datatype effect =
    SaveTasks string "task list"
  | SaveCalendarCache "string \<rightharpoonup> event list"
  | OpenURL string

text \<open>The confirm branch of \<open>Update\<close> (todo.go, lines 127 to 141).\<close>

definition todo_confirm :: "todo_Model \<Rightarrow> todo_Model \<times> effect list" where
  "todo_confirm m =
     (let l = (if State m = ListStateAdding
               then (if Value (TextInput m) \<noteq> []
                     then InsertItem (length (items (List m)))
                            \<lparr>Title = Value (TextInput m), Description = [], Done = False\<rparr> (List m)
                     else List m)
               else (case SelectedItem (List m) of
                       Some i \<Rightarrow> SetItem (index (List m)) (i\<lparr>Title := Value (TextInput m)\<rparr>) (List m)
                     | None \<Rightarrow> List m))
      in (m\<lparr>List := l, TextInput := Reset (TextInput m), State := ListStateDefault\<rparr>,
          [SaveTasks (path m) (items l)]))"

definition todo_cancel :: "todo_Model \<Rightarrow> todo_Model" where
  "todo_cancel m = m\<lparr>State := ListStateDefault, TextInput := Reset (TextInput m)\<rparr>"

text \<open>The key switch of the default state (todo.go, lines 155 to 178).\<close>

datatype todo_step = Return todo_Model "cmd list" | Continue todo_Model "effect list"

definition todo_default_key :: "'n lib \<Rightarrow> string \<Rightarrow> todo_Model \<Rightarrow> todo_step" where
  "todo_default_key L k m =
     (if Matches k [tk_AddTask (todo_keys m)]
      then Return (m\<lparr>State := ListStateAdding, TextInput := Focus (TextInput m)\<rparr>) [Blink]
      else if Matches k [tk_EditTask (todo_keys m)]
      then (case SelectedItem (List m) of
              Some i \<Rightarrow> Return (m\<lparr>State := ListStateEditing,
                                  TextInput := Focus (SetValue (Title i) (TextInput m))\<rparr>) [Blink]
            | None \<Rightarrow> Continue m [])
      else if Matches k [tk_Toggle (todo_keys m)]
      then (case SelectedItem (List m) of
              Some i \<Rightarrow>
                (let l = SetItem (index (List m)) (i\<lparr>Done := (\<not> Done i)\<rparr>) (List m)
                 in Continue (m\<lparr>List := l\<rparr>) [SaveTasks (path m) (items l)])
            | None \<Rightarrow> Continue m [])
      else if Matches k [tk_Delete (todo_keys m)]
      then (if 0 < length (items (List m))
            then (let l = list_RemoveItem L (index (List m)) (List m)
                  in Continue (m\<lparr>List := l\<rparr>) [SaveTasks (path m) (items l)])
            else Continue m [])
      else Continue m [])"

text \<open>The branch shared by the adding and the editing state (lines 124 to 148).\<close>

definition todo_input :: "'n lib \<Rightarrow> msg \<Rightarrow> todo_Model \<Rightarrow> todo_Model \<times> cmd list \<times> effect list" where
  "todo_input L ms m =
     (let (m', es) =
            (case ms of
               KeyMsg k \<Rightarrow>
                 (if Matches k [tk_SaveTask (todo_keys m), tk_Confirm (todo_keys m)]
                  then todo_confirm m
                  else if Matches k [tk_Cancel (todo_keys m)]
                  then (todo_cancel m, [])
                  else (m, []))
             | _ \<Rightarrow> (m, []));
          (ti, c) = textinput_Update L ms (TextInput m')
      in (m'\<lparr>TextInput := ti\<rparr>, map LibCmd c, es))"

definition todo_Update :: "'n lib \<Rightarrow> msg \<Rightarrow> bool \<Rightarrow> todo_Model \<Rightarrow> todo_Model \<times> cmd list \<times> effect list" where
  "todo_Update L ms focused m =
     (if focused
      then (case State m of
              ListStateAdding \<Rightarrow> todo_input L ms m
            | ListStateEditing \<Rightarrow> todo_input L ms m
            | ListStateDefault \<Rightarrow>
                (case (case ms of
                         KeyMsg k \<Rightarrow>
                           (if filterState (List m) = Filtering then Continue m []
                            else todo_default_key L k m)
                       | _ \<Rightarrow> Continue m []) of
                   Return m' cs \<Rightarrow> (m', cs, [])
                 | Continue m' es \<Rightarrow>
                     (let (l, c) = list_Update L ms (List m')
                      in (m'\<lparr>List := l\<rparr>, map LibCmd c, es))))
      else (m, [], []))"

section \<open>Files and JSON\<close>

text \<open>
  The file system as the program sees it. A path read by \<open>os.ReadFile\<close> is absent,
  unreadable (any error other than "does not exist") or holds bytes; \<open>os.WriteFile\<close>
  fails on a read-only path and otherwise replaces the content. The notes directory
  is listed by \<open>os.ReadDir\<close>: its entries are names with the \<open>IsDir\<close> flag, returned
  sorted by name; the content of a note is never read by the functions below and is
  not kept. \<open>config_dir\<close> and \<open>notes_dir\<close> are the results of \<open>GetConfigDir\<close> and
  \<open>GetNotesDir\<close> (\<open>None\<close> when the operating system cannot resolve them).
\<close>

datatype file_state = NotExist | Unreadable | Data string

record fs =
  files :: "string \<Rightarrow> file_state"
  readonly :: "string \<Rightarrow> bool"
  config_dir :: "string option"
  notes_dir :: "string option"
  notes_entries :: "(string \<times> bool) list option"
  notes_readonly :: bool

definition Join :: "string \<Rightarrow> string \<Rightarrow> string" where
  "Join d n = d @ ''/'' @ n"

definition os_ReadFile :: "string \<Rightarrow> fs \<Rightarrow> error + string" where
  "os_ReadFile p w =
     (case files w p of NotExist \<Rightarrow> Inl ErrNotExist | Unreadable \<Rightarrow> Inl ErrIO | Data d \<Rightarrow> Inr d)"

definition os_WriteFile :: "string \<Rightarrow> string \<Rightarrow> fs \<Rightarrow> error option \<times> fs" where
  "os_WriteFile p d w =
     (if readonly w p then (Some ErrIO, w) else (None, w\<lparr>files := (files w)(p := Data d)\<rparr>))"

definition os_ReadDir :: "fs \<Rightarrow> error + (string \<times> bool) list" where
  "os_ReadDir w = (case notes_entries w of None \<Rightarrow> Inl ErrIO | Some es \<Rightarrow> Inr (sort_key fst es))"

text \<open>
  \<open>os.WriteFile\<close> of a file in the notes directory: it fails when the directory is
  missing or read-only or when the name is that of a subdirectory.
\<close>

definition write_note :: "string \<Rightarrow> fs \<Rightarrow> error option \<times> fs" where
  "write_note n w =
     (case notes_entries w of
        None \<Rightarrow> (Some ErrIO, w)
      | Some es \<Rightarrow>
          (if notes_readonly w then (Some ErrIO, w)
           else if (n, True) \<in> set es then (Some ErrIO, w)
           else if (n, False) \<in> set es then (None, w)
           else (None, w\<lparr>notes_entries := Some (es @ [(n, False)])\<rparr>)))"

text \<open>
  \<open>encoding/json\<close> is a library: a codec for a Go type gives \<open>Marshal\<close> (which cannot
  fail for the structs of this program: strings and booleans only), the syntax check
  that \<open>Unmarshal\<close> runs first, and the decoder, which returns the value it leaves in
  a zero-valued target with the error, if any. One fact about the syntax check is
  fixed here: input made of JSON white space only, in particular empty input, is
  rejected ("unexpected end of JSON input"), and then the target is left untouched.
\<close>

record 'a codec =
  Marshal :: "'a \<Rightarrow> string"
  checkValid :: "string \<Rightarrow> bool"
  decode :: "string \<Rightarrow> 'a \<times> error option"

definition isSpace :: "char \<Rightarrow> bool" where
  "isSpace c = (c \<in> set [CHR '' '', CHR 0x09, CHR 0x0D, CHR 0x0A])"

definition json_Unmarshal :: "'a codec \<Rightarrow> 'a \<Rightarrow> string \<Rightarrow> 'a \<times> error option" where
  "json_Unmarshal C zero d =
     (if list_all isSpace d then (zero, Some ErrSyntax)
      else if checkValid C d then decode C d
      else (zero, Some ErrSyntax))"

subsection \<open>Task persistence (todo.go, saveTasks and loadTasks)\<close>

definition saveTasks :: "task list codec \<Rightarrow> string \<Rightarrow> task list \<Rightarrow> fs \<Rightarrow> fs" where
  "saveTasks C p ts w = snd (os_WriteFile p (Marshal C ts) w)"

definition mkTask :: "string \<Rightarrow> task" where
  "mkTask t = \<lparr>Title = t, Description = [], Done = False\<rparr>"

definition defaultTasks :: "task list" where
  "defaultTasks =
     [mkTask ''Welcome to GoDash!'',
      mkTask ''Press 'o' to add a new task'',
      mkTask ''Press 'i' to edit a task'',
      mkTask ''Use the arrow keys to navigate'',
      mkTask ''Press 'space' to complete a task'',
      mkTask ''Press 'enter' to confirm edit'',
      mkTask ''Press 'esc' to cancel edit'',
      mkTask ''Press 'ctrl+d' to delete a task'']"

definition loadTasks :: "task list codec \<Rightarrow> string \<Rightarrow> fs \<Rightarrow> task list \<times> fs" where
  "loadTasks C p w =
     (case os_ReadFile p w of
        Inl err \<Rightarrow>
          (if err = ErrNotExist then (defaultTasks, saveTasks C p defaultTasks w)
           else ([], w))
      | Inr d \<Rightarrow> (fst (json_Unmarshal C [] d), w))"

subsection \<open>Settings (internal/config/config.go)\<close>

record Settings =
  Location :: string
  DefaultNotesCreated :: bool

definition zeroSettings :: Settings where
  "zeroSettings = \<lparr>Location = [], DefaultNotesCreated = False\<rparr>"

definition SaveSettings :: "Settings codec \<Rightarrow> Settings \<Rightarrow> fs \<Rightarrow> error option \<times> fs" where
  "SaveSettings C s w =
     (case config_dir w of
        None \<Rightarrow> (Some ErrIO, w)
      | Some configDir \<Rightarrow> os_WriteFile (Join configDir ''config.json'') (Marshal C s) w)"

definition LoadSettings :: "Settings codec \<Rightarrow> fs \<Rightarrow> (Settings \<times> error option) \<times> fs" where
  "LoadSettings C w =
     (case config_dir w of
        None \<Rightarrow> ((zeroSettings, Some ErrIO), w)
      | Some configDir \<Rightarrow>
          (let settingsPath = Join configDir ''config.json'' in
           case os_ReadFile settingsPath w of
             Inl err \<Rightarrow>
               (if err = ErrNotExist
                then (let defaultSettings = \<lparr>Location = ''Athens'', DefaultNotesCreated = False\<rparr>;
                          (writeErr, w') = os_WriteFile settingsPath (Marshal C defaultSettings) w
                      in case writeErr of
                           Some e \<Rightarrow> ((zeroSettings, Some e), w')
                         | None \<Rightarrow> ((defaultSettings, None), w'))
                else ((zeroSettings, Some err), w))
           | Inr content \<Rightarrow>
               (case json_Unmarshal C zeroSettings content of
                  (settings, Some e) \<Rightarrow> ((settings, Some e), w)
                | (settings, None) \<Rightarrow>
                    ((if Location settings = [] then settings\<lparr>Location := ''Athens''\<rparr>
                      else settings, None), w))))"

subsection \<open>Loading and seeding notes (the notes package)\<close>

text \<open>The Go type \<open>note\<close>: the displayed title and the path of the file.\<close>

record note_item =
  title :: string
  note_path :: string

definition HasSuffix :: "string \<Rightarrow> string \<Rightarrow> bool" where
  "HasSuffix s suf = (length suf \<le> length s \<and> drop (length s - length suf) s = suf)"

definition TrimSuffix :: "string \<Rightarrow> string \<Rightarrow> string" where
  "TrimSuffix s suf = (if HasSuffix s suf then take (length s - length suf) s else s)"

definition ReplaceAll1 :: "char \<Rightarrow> char \<Rightarrow> string \<Rightarrow> string" where
  "ReplaceAll1 a b s = map (\<lambda>c. if c = a then b else c) s"

definition isAlnumHyphen :: "char \<Rightarrow> bool" where
  "isAlnumHyphen c =
     (c \<in> set ''abcdefghijklmnopqrstuvwxyzABCDEFGHIJKLMNOPQRSTUVWXYZ0123456789-'')"

definition isDigit :: "char \<Rightarrow> bool" where
  "isDigit c = (c \<in> set ''0123456789'')"

definition isReSpace :: "char \<Rightarrow> bool" where
  "isReSpace c = (c \<in> set [CHR 0x09, CHR 0x0A, CHR 0x0C, CHR 0x0D, CHR '' ''])"

text \<open>
  \<open>sanitizeFilename\<close>: spaces become hyphens, every run of characters outside
  \<open>[a-zA-Z0-9-]\<close> is deleted, and an empty result becomes \<open>untitled-note\<close>. (The
  branch for a regular expression that does not compile cannot be taken.)
\<close>

definition sanitizeFilename :: "string \<Rightarrow> string" where
  "sanitizeFilename name =
     (let sanitized = filter isAlnumHyphen (ReplaceAll1 (CHR '' '') (CHR ''-'') name)
      in if sanitized = [] then ''untitled-note'' else sanitized)"

text \<open>Deleting a match of \<open>^\d+\s\<close>, the numeric prefix of a seed note.\<close>

definition stripNumericPrefix :: "string \<Rightarrow> string" where
  "stripNumericPrefix s =
     (let ds = takeWhile isDigit s; r = dropWhile isDigit s
      in case r of
           [] \<Rightarrow> s
         | c # r' \<Rightarrow> (if ds \<noteq> [] \<and> isReSpace c then r' else s))"

definition isMarkdown :: "string \<times> bool \<Rightarrow> bool" where
  "isMarkdown e = (\<not> snd e \<and> HasSuffix (fst e) ''.md'')"

definition notesOf :: "string \<Rightarrow> (string \<times> bool) list \<Rightarrow> note_item list" where
  "notesOf notesDir fls =
     map (\<lambda>e. \<lparr>title = stripNumericPrefix (ReplaceAll1 (CHR ''-'') (CHR '' '') (TrimSuffix (fst e) ''.md'')),
               note_path = Join notesDir (fst e)\<rparr>)
         (filter isMarkdown fls)"

definition welcomeFilename :: string where
  "welcomeFilename = sanitizeFilename ''01 Welcome to GoDash'' @ ''.md''"

definition keybindingsFilename :: string where
  "keybindingsFilename = sanitizeFilename ''02 Keybindings for the entire GoDash app'' @ ''.md''"

definition createDefaultNotes :: "fs \<Rightarrow> fs" where
  "createDefaultNotes w = snd (write_note keybindingsFilename (snd (write_note welcomeFilename w)))"

definition loadNotes :: "Settings codec \<Rightarrow> fs \<Rightarrow> (error + note_item list) \<times> fs" where
  "loadNotes C w =
     (case notes_dir w of
        None \<Rightarrow> (Inl ErrIO, w)
      | Some notesDir \<Rightarrow>
          (case os_ReadDir w of
             Inl e \<Rightarrow> (Inl e, w)
           | Inr fls \<Rightarrow>
               (if length (filter isMarkdown fls) = 0
                then (case LoadSettings C w of
                        ((settings, err), w1) \<Rightarrow>
                          (if err = None \<and> \<not> DefaultNotesCreated settings
                           then (let w2 = createDefaultNotes w1;
                                     w3 = snd (SaveSettings C (settings\<lparr>DefaultNotesCreated := True\<rparr>) w2)
                                 in case os_ReadDir w3 of
                                      Inl e \<Rightarrow> (Inl e, w3)
                                    | Inr fls' \<Rightarrow> (Inr (notesOf notesDir fls'), w3))
                           else (Inr (notesOf notesDir fls), w1)))
                else (Inr (notesOf notesDir fls), w))))"

section \<open>The calendar panel (the calendar package)\<close>

subsection \<open>Time\<close>

text \<open>
  \<open>time.Since(t)\<close> is the duration from \<open>t\<close> to now, a signed 64-bit number of
  nanoseconds that saturates at both ends. The clock readings taken during one call
  of \<open>Update\<close> are one instant, \<open>now\<close>.
\<close>

definition maxDuration :: int where
  "maxDuration = 2 ^ 63 - 1"

definition minDuration :: int where
  "minDuration = - (2 ^ 63)"

definition time_Since :: "instant \<Rightarrow> instant \<Rightarrow> int" where
  "time_Since now t =
     (let d = now - t
      in if maxDuration < d then maxDuration else if d < minDuration then minDuration else d)"

definition fetchCoolDown :: int where
  "fetchCoolDown = 5 * 1000000000"

text \<open>\<open>Format("2006-01")\<close>: the year on at least four digits, a hyphen, the month on two.\<close>

definition digit :: "nat \<Rightarrow> char" where
  "digit d = ''0123456789'' ! d"

fun digits :: "nat \<Rightarrow> string" where
  "digits n = (if n < 10 then [digit n] else digits (n div 10) @ [digit (n mod 10)])"

declare digits.simps [simp del]

definition zeroPad :: "nat \<Rightarrow> string \<Rightarrow> string" where
  "zeroPad w s = replicate (w - length s) (CHR ''0'') @ s"

definition monthKey :: "date \<Rightarrow> string" where
  "monthKey d =
     (if Year d < 0 then ''-'' else []) @ zeroPad 4 (digits (nat \<bar>Year d\<bar>))
       @ ''-'' @ zeroPad 2 (digits (Month d))"

definition sameDay :: "date \<Rightarrow> date \<Rightarrow> bool" where
  "sameDay a b = (Day a = Day b \<and> Month a = Month b \<and> Year a = Year b)"

subsection \<open>The clock (widgets/clock/clock.go)\<close>

record clock_Model =
  clock_Time :: instant

definition clock_Update :: "instant \<Rightarrow> msg \<Rightarrow> clock_Model \<Rightarrow> clock_Model \<times> cmd list" where
  "clock_Update now ms c =
     (case ms of TickMsg \<Rightarrow> (c\<lparr>clock_Time := now\<rparr>, [Tick]) | _ \<Rightarrow> (c, []))"

subsection \<open>The panel\<close>

datatype calendarState = StateIdle | StateReady

record calendar_Model =
  cal_state :: calendarState
  DatePicker :: datepicker
  events :: "event list"
  selectedDate :: date
  cachedEvents :: "string \<rightharpoonup> event list"
  fetchingMonths :: "string \<rightharpoonup> bool"
  lastFetchTime :: instant
  err :: "error option"
  loading :: bool
  spinner :: nat
  clock :: clock_Model
  weather :: "string option"
  weatherErr :: "error option"
  weatherLoading :: bool
  location :: string
  cal_width :: int
  cal_height :: int

text \<open>Reading a Go map of booleans: a missing key reads as \<open>false\<close>.\<close>

definition isFetching :: "calendar_Model \<Rightarrow> string \<Rightarrow> bool" where
  "isFetching m k = (case fetchingMonths m k of Some b \<Rightarrow> b | None \<Rightarrow> False)"

text \<open>
  The start of an event as \<open>filterEventsForSelectedDate\<close> reads it: the date-time field
  parsed as RFC 3339 when it is not empty, the date field parsed as a plain date
  otherwise.
\<close>

definition eventDate :: "'n lib \<Rightarrow> event \<Rightarrow> date option" where
  "eventDate L e =
     (if Start_DateTime e \<noteq> [] then time_Parse L RFC3339 (Start_DateTime e)
      else time_Parse L DateOnly (Start_Date e))"

text \<open>The loop of \<open>filterEventsForSelectedDate\<close>, with \<open>dailyEvents\<close> as accumulator.\<close>

fun filterLoop :: "'n lib \<Rightarrow> date \<Rightarrow> event list \<Rightarrow> event list \<Rightarrow> event list" where
  "filterLoop L sel [] dailyEvents = dailyEvents"
| "filterLoop L sel (e # es) dailyEvents =
     (case eventDate L e of
        None \<Rightarrow> filterLoop L sel es dailyEvents
      | Some d \<Rightarrow>
          (if sameDay d sel then filterLoop L sel es (dailyEvents @ [e])
           else filterLoop L sel es dailyEvents))"

definition filterEventsForSelectedDate :: "'n lib \<Rightarrow> calendar_Model \<Rightarrow> calendar_Model" where
  "filterEventsForSelectedDate L m =
     (case cachedEvents m (monthKey (selectedDate m)) of
        Some monthlyEvents \<Rightarrow> m\<lparr>events := filterLoop L (selectedDate m) monthlyEvents []\<rparr>
      | None \<Rightarrow> m\<lparr>events := []\<rparr>)"

text \<open>
  The date-navigation branch of \<open>Update\<close> (lines 171 to 194), taken when the panel is
  focused and ready: the date picker handles the message, and when its date is no
  longer the selected one the cache, the in-flight set and the cooldown decide
  whether a fetch starts.
\<close>

definition navigate :: "'n lib \<Rightarrow> instant \<Rightarrow> msg \<Rightarrow> calendar_Model \<Rightarrow> calendar_Model \<times> cmd list" where
  "navigate L now ms m =
     (let (dp, c) = datepicker_Update L ms (SelectDate (SetFocus FocusCalendar (DatePicker m)));
          datepickerCmd = map LibCmd c;
          m1 = m\<lparr>DatePicker := dp\<rparr>
      in if sameDay (Time dp) (selectedDate m1) then (m1, datepickerCmd)
         else (let m2 = m1\<lparr>selectedDate := Time dp\<rparr>;
                   k = monthKey (selectedDate m2)
               in case cachedEvents m2 k of
                    Some _ \<Rightarrow> ((filterEventsForSelectedDate L m2)\<lparr>loading := False\<rparr>, datepickerCmd)
                  | None \<Rightarrow>
                      (if \<not> isFetching m2 k \<and> fetchCoolDown < time_Since now (lastFetchTime m2)
                       then (m2\<lparr>loading := True,
                                fetchingMonths := (fetchingMonths m2)(k \<mapsto> True),
                                lastFetchTime := now\<rparr>,
                             datepickerCmd @ [FetchEventsForMonth (selectedDate m2)])
                       else (m2, datepickerCmd))))"

text \<open>
  The part of \<open>Update\<close> after the data messages (lines 160 to 199): the clock and,
  while something is loading, the spinner see every message; navigation happens only
  with focus. The last command assigned to \<open>cmd\<close> is appended once more when focused.
\<close>

definition calendar_passive :: "'n lib \<Rightarrow> instant \<Rightarrow> msg \<Rightarrow> bool \<Rightarrow> calendar_Model \<Rightarrow> calendar_Model \<times> cmd list" where
  "calendar_passive L now ms focused m =
     (let (c, clockCmd) = clock_Update now ms (clock m);
          m1 = m\<lparr>clock := c\<rparr>;
          (m2, cmd, cmds) =
             (if loading m1 \<or> weatherLoading m1
              then (let (s, c) = spinner_Update L ms (spinner m1)
                    in (m1\<lparr>spinner := s\<rparr>, map LibCmd c, clockCmd @ map LibCmd c))
              else (m1, clockCmd, clockCmd))
      in if focused
         then (case cal_state m2 of
                 StateReady \<Rightarrow> (let (m3, datepickerCmd) = navigate L now ms m2
                                in (m3, cmds @ datepickerCmd @ cmd))
               | StateIdle \<Rightarrow> (m2, cmds @ cmd))
         else (m2, cmds))"

definition calendar_Update :: "'n lib \<Rightarrow> instant \<Rightarrow> msg \<Rightarrow> bool \<Rightarrow> calendar_Model
    \<Rightarrow> calendar_Model \<times> cmd list \<times> effect list" where
  "calendar_Update L now ms focused m =
     (case ms of
        EventsMsg k evs \<Rightarrow>
          (let m1 = filterEventsForSelectedDate L
                      (m\<lparr>cachedEvents := (cachedEvents m)(k \<mapsto> evs),
                         fetchingMonths := (fetchingMonths m)(k \<mapsto> False),
                         loading := False,
                         cal_state := StateReady\<rparr>)
           in (m1, [], [SaveCalendarCache (cachedEvents m1)]))
      | EventsErrMsg k e \<Rightarrow>
          (let m1 = m\<lparr>fetchingMonths := (fetchingMonths m)(k \<mapsto> False)\<rparr>
           in if e = ErrAuthRequired then (m1\<lparr>cal_state := StateIdle, loading := False\<rparr>, [], [])
              else (m1\<lparr>err := Some e, loading := False\<rparr>, [], []))
      | WeatherMsg w \<Rightarrow> (m\<lparr>weather := Some w, weatherLoading := False\<rparr>, [], [])
      | WeatherErrMsg e \<Rightarrow> (m\<lparr>weatherErr := Some e, weatherLoading := False\<rparr>, [], [])
      | _ \<Rightarrow> (let (m', cmds) = calendar_passive L now ms focused m in (m', cmds, [])))"

subsection \<open>Reading a step of the panel\<close>

text \<open>The fetch commands of a batch, in order, each with the date it was built from.\<close>

fun fetches :: "cmd list \<Rightarrow> date list" where
  "fetches [] = []"
| "fetches (FetchEventsForMonth d # cs) = d # fetches cs"
| "fetches (c # cs) = fetches cs"

text \<open>The messages \<open>Update\<close> handles before anything else (lines 130 to 158).\<close>

fun isDataMsg :: "msg \<Rightarrow> bool" where
  "isDataMsg (EventsMsg k evs) = True"
| "isDataMsg (EventsErrMsg k e) = True"
| "isDataMsg (WeatherMsg w) = True"
| "isDataMsg (WeatherErrMsg e) = True"
| "isDataMsg ms = False"

text \<open>
  By the words of the specification: an event is on the selected day when its start
  parses and has the year, the month and the day of the selection.
\<close>

definition startsOn :: "'n lib \<Rightarrow> date \<Rightarrow> event \<Rightarrow> bool" where
  "startsOn L sel e =
     (case eventDate L e of
        None \<Rightarrow> False
      | Some d \<Rightarrow> Year d = Year sel \<and> Month d = Month sel \<and> Day d = Day sel)"

section \<open>The dashboard (main.go)\<close>

datatype appState =
  stateDashboard | stateEditingNote | stateSetupWeather | stateSetupCalendar | stateExitConfirmation

datatype noteEditorMode = notePreviewMode | noteSourceMode

datatype focusState = focusList | focusNotes | focusCalendar

text \<open>\<open>(m.focus + 1) % 3\<close> on the three focus values, in their declared order.\<close>

fun nextFocus :: "focusState \<Rightarrow> focusState" where
  "nextFocus focusList = focusNotes"
| "nextFocus focusNotes = focusCalendar"
| "nextFocus focusCalendar = focusList"

record keyMap =
  k_AddTask :: binding
  k_Delete :: binding
  k_Toggle :: binding
  k_EditTask :: binding
  k_SaveTask :: binding
  k_Confirm :: binding
  k_OpenLink :: binding
  k_OpenCalendar :: binding
  k_Cancel :: binding
  k_CreateNote :: binding
  k_DeleteNote :: binding
  k_EditNote :: binding
  k_SaveNote :: binding
  k_ToggleEditMode :: binding
  k_CycleFocus :: binding
  k_ShowHelp :: binding
  k_Quit :: binding

definition keys :: keyMap where
  "keys = \<lparr>
     k_AddTask = NewBinding [''o''],
     k_Delete = NewBinding [''ctrl+d''],
     k_Toggle = NewBinding ['' ''],
     k_EditTask = NewBinding [''i''],
     k_SaveTask = NewBinding [''ctrl+s''],
     k_Confirm = NewBinding [''enter''],
     k_OpenLink = NewBinding [''ctrl+o''],
     k_OpenCalendar = NewBinding [''enter''],
     k_Cancel = NewBinding [''esc''],
     k_CreateNote = NewBinding [''o''],
     k_DeleteNote = NewBinding [''ctrl+d''],
     k_EditNote = NewBinding [''e''],
     k_SaveNote = NewBinding [''ctrl+s''],
     k_ToggleEditMode = NewBinding [''i''],
     k_CycleFocus = NewBinding [''tab''],
     k_ShowHelp = NewBinding [''ctrl+k''],
     k_Quit = NewBinding [''ctrl+q'']\<rparr>"

text \<open>
  The key map handed to the todo panel by \<open>initialModel\<close>: copies of the global
  bindings, which later calls of \<open>updateKeybindings\<close> do not reach.
\<close>

definition todoKeys :: todo_KeyMap where
  "todoKeys = \<lparr>
     tk_AddTask = k_AddTask keys,
     tk_Delete = k_Delete keys,
     tk_Toggle = k_Toggle keys,
     tk_EditTask = k_EditTask keys,
     tk_SaveTask = k_SaveTask keys,
     tk_Confirm = k_Confirm keys,
     tk_Cancel = k_Cancel keys\<rparr>"

record 'n model =
  app_state :: appState
  focus :: focusState
  todo :: todo_Model
  notes_panel :: 'n
  calendar :: calendar_Model
  noteEditor :: string
  noteViewer :: string
  noteEditorMode :: noteEditorMode
  noteContent :: string
  editingNotePath :: string
  model_keys :: keyMap
  width :: int
  height :: int
  showHelp :: bool
  markdownRenderer :: bool
  hasUnsavedChanges :: bool
  originalContent :: string

definition updateKeybindings :: "'n model \<Rightarrow> 'n model" where
  "updateKeybindings m =
     (let ks = model_keys m in
      if app_state m = stateEditingNote
      then m\<lparr>model_keys := ks\<lparr>
             k_AddTask := SetEnabled False (k_AddTask ks),
             k_Delete := SetEnabled False (k_Delete ks),
             k_Toggle := SetEnabled False (k_Toggle ks),
             k_EditTask := SetEnabled False (k_EditTask ks),
             k_Confirm := SetEnabled False (k_Confirm ks),
             k_OpenLink := SetEnabled False (k_OpenLink ks),
             k_OpenCalendar := SetEnabled False (k_OpenCalendar ks),
             k_CreateNote := SetEnabled False (k_CreateNote ks),
             k_DeleteNote := SetEnabled False (k_DeleteNote ks),
             k_EditNote := SetEnabled False (k_EditNote ks),
             k_CycleFocus := SetEnabled False (k_CycleFocus ks),
             k_ShowHelp := SetEnabled False (k_ShowHelp ks),
             k_SaveNote := SetEnabled (noteEditorMode m = noteSourceMode) (k_SaveNote ks),
             k_ToggleEditMode := SetEnabled True (k_ToggleEditMode ks),
             k_Cancel := SetEnabled True (k_Cancel ks),
             k_Quit := SetEnabled True (k_Quit ks)\<rparr>\<rparr>
      else (let isListFocused = (focus m = focusList);
                isNotesFocused = (focus m = focusNotes);
                isCalendarFocused = (focus m = focusCalendar);
                isSetup = (app_state m = stateSetupWeather \<or> app_state m = stateSetupCalendar);
                isDefault = (State (todo m) = ListStateDefault);
                isInput = (State (todo m) = ListStateAdding \<or> State (todo m) = ListStateEditing)
            in m\<lparr>model_keys := ks\<lparr>
                 k_AddTask := SetEnabled (\<not> isSetup \<and> isListFocused \<and> isDefault) (k_AddTask ks),
                 k_Delete := SetEnabled (\<not> isSetup \<and> isListFocused \<and> isDefault) (k_Delete ks),
                 k_Toggle := SetEnabled (\<not> isSetup \<and> isListFocused \<and> isDefault) (k_Toggle ks),
                 k_EditTask := SetEnabled (\<not> isSetup \<and> isListFocused \<and> isDefault) (k_EditTask ks),
                 k_Confirm := SetEnabled ((\<not> isSetup \<and> isListFocused \<and> isInput) \<or> isSetup) (k_Confirm ks),
                 k_OpenLink := SetEnabled isSetup (k_OpenLink ks),
                 k_OpenCalendar := SetEnabled (\<not> isSetup \<and> isCalendarFocused) (k_OpenCalendar ks),
                 k_CreateNote := SetEnabled (\<not> isSetup \<and> isNotesFocused) (k_CreateNote ks),
                 k_DeleteNote := SetEnabled (\<not> isSetup \<and> isNotesFocused) (k_DeleteNote ks),
                 k_EditNote := SetEnabled (\<not> isSetup \<and> isNotesFocused) (k_EditNote ks),
                 k_CycleFocus := SetEnabled (\<not> isSetup) (k_CycleFocus ks),
                 k_SaveNote := SetEnabled False (k_SaveNote ks),
                 k_Cancel := SetEnabled (\<not> isSetup) (k_Cancel ks),
                 k_ShowHelp := SetEnabled True (k_ShowHelp ks),
                 k_Quit := SetEnabled True (k_Quit ks)\<rparr>\<rparr>))"

text \<open>
  Go's integer division truncates toward zero: \<open>sdiv\<close> on \<open>int\<close>. Sizes and
  coordinates are far from the bounds of a 64-bit \<open>int\<close>, so they are integers here.
\<close>

text \<open>The focus chosen by a left-button press (lines 733 to 745).\<close>

definition clickLeftColumnWidth :: "'n model \<Rightarrow> int" where
  "clickLeftColumnWidth m = (width m * 2) sdiv 5"

definition clickFocus :: "'n model \<Rightarrow> mouse \<Rightarrow> focusState" where
  "clickFocus m c =
     (if X c < clickLeftColumnWidth m
      then (if Y c < height m sdiv 2 then focusList else focusCalendar)
      else focusNotes)"

text \<open>
  The geometry \<open>viewDashboard\<close> renders with (lines 980 to 987); both boxes of the
  left column are \<open>leftColumnWidth - 2\<close> wide inside a border of one cell on each
  side, so the left column covers the cells \<open>0 \<le> x < leftColumnWidth\<close>.
\<close>

definition gridHeight :: "'n model \<Rightarrow> int" where
  "gridHeight m = height m - 3"

definition leftColumnWidth :: "'n model \<Rightarrow> int" where
  "leftColumnWidth m = width m sdiv 2"

definition rightColumnWidth :: "'n model \<Rightarrow> int" where
  "rightColumnWidth m = width m - leftColumnWidth m"

definition todoBoxHeight :: "'n model \<Rightarrow> int" where
  "todoBoxHeight m = (gridHeight m * 3) sdiv 7"

definition calendarBoxHeight :: "'n model \<Rightarrow> int" where
  "calendarBoxHeight m = gridHeight m - todoBoxHeight m"

text \<open>The case for \<open>notes.EditNoteMsg\<close> (lines 710 to 731).\<close>

definition openNote :: "'n lib \<Rightarrow> string \<Rightarrow> string \<Rightarrow> 'n model \<Rightarrow> 'n model" where
  "openNote L p content m =
     (let m1 = m\<lparr>app_state := stateEditingNote, editingNotePath := p, noteContent := content,
                 originalContent := content, hasUnsavedChanges := False,
                 noteEditor := content, noteEditorMode := notePreviewMode\<rparr>;
          rendered = (if markdownRenderer m1
                      then (case glamour_Render L content of Some r \<Rightarrow> r | None \<Rightarrow> content)
                      else content)
      in updateKeybindings (m1\<lparr>noteViewer := rendered\<rparr>))"

text \<open>The key handling after the three panels were updated (lines 755 to 781).\<close>

definition dashboardKeys :: "string \<Rightarrow> 'n model \<Rightarrow> cmd list \<Rightarrow> effect list
    \<Rightarrow> 'n model \<times> cmd list \<times> effect list" where
  "dashboardKeys k m cmds effs =
     (let effs' = effs @ (if focus m = focusCalendar \<and> Matches k [k_OpenCalendar (model_keys m)]
                          then [OpenURL ''https://calendar.google.com/calendar/u/0/r''] else [])
      in if k = ''q'' then (m, [], effs')
         else if Matches k [k_ShowHelp (model_keys m)] then (m\<lparr>showHelp := (\<not> showHelp m)\<rparr>, [], effs')
         else if Matches k [k_Cancel (model_keys m)] then (m\<lparr>showHelp := False\<rparr>, [], effs')
         else if Matches k [k_Quit (model_keys m)] then (m, [Quit], effs')
         else if Matches k [k_CycleFocus (model_keys m)]
         then (if State (todo m) = ListStateAdding then (m, [], effs')
               else (updateKeybindings (m\<lparr>focus := nextFocus (focus m)\<rparr>), [], effs'))
         else (m, cmds, effs'))"

definition updateDashboard :: "'n lib \<Rightarrow> instant \<Rightarrow> msg \<Rightarrow> 'n model \<Rightarrow> 'n model \<times> cmd list \<times> effect list" where
  "updateDashboard L now ms m =
     (if State (todo m) = ListStateAdding \<or> State (todo m) = ListStateEditing
      then (let (t, cmd, effs) = todo_Update L ms (focus m = focusList) (todo m)
            in (m\<lparr>todo := t\<rparr>, cmd, effs))
      else (case ms of
              EditNoteMsg p content \<Rightarrow> (openNote L p content m, [], [])
            | _ \<Rightarrow>
               (let m0 = (case ms of
                            MouseMsg c \<Rightarrow>
                              (if Action c = MouseActionPress \<and> Button c = MouseButtonLeft
                               then updateKeybindings (m\<lparr>focus := clickFocus m c\<rparr>)
                               else m)
                          | _ \<Rightarrow> m);
                    (t, cmd1, effs1) = todo_Update L ms (focus m0 = focusList) (todo m0);
                    (n, c2) = notes_Update L ms (focus m0 = focusNotes) (notes_panel m0);
                    cmd2 = map LibCmd c2;
                    (c, cmd3, effs3) = calendar_Update L now ms (focus m0 = focusCalendar) (calendar m0);
                    m1 = m0\<lparr>todo := t, notes_panel := n, calendar := c\<rparr>
                in case ms of
                     KeyMsg k \<Rightarrow> dashboardKeys k m1 (cmd1 @ cmd2 @ cmd3) (effs1 @ effs3)
                   | _ \<Rightarrow> (m1, cmd1 @ cmd2 @ cmd3, effs1 @ effs3))))"

section \<open>Concrete instances\<close>

text \<open>
  Instances of the library parameters and of the file system on which the
  definitions above can be run. The JSON text is the one \<open>json.Marshal\<close> produces
  for strings that need no escaping.
\<close>

definition quote :: "string \<Rightarrow> string" where
  "quote s = CHR 0x22 # s @ [CHR 0x22]"

definition taskJSON :: "task \<Rightarrow> string" where
  "taskJSON t =
     ''{'' @ quote ''title'' @ '':'' @ quote (Title t) @ '','' @ quote ''description'' @ '':''
       @ quote (Description t) @ '','' @ quote ''done'' @ '':''
       @ (if Done t then ''true'' else ''false'') @ ''}''"

fun commaSep :: "string list \<Rightarrow> string" where
  "commaSep [] = []"
| "commaSep [x] = x"
| "commaSep (x # y # zs) = x @ '','' @ commaSep (y # zs)"

definition tasksJSON :: "task list \<Rightarrow> string" where
  "tasksJSON ts = ''['' @ commaSep (map taskJSON ts) @ '']''"

definition exampleTaskCodec :: "task list codec" where
  "exampleTaskCodec =
     \<lparr>Marshal = tasksJSON,
      checkValid = (\<lambda>d. d = tasksJSON defaultTasks \<or> d = ''[]''),
      decode = (\<lambda>d. if d = tasksJSON defaultTasks then (defaultTasks, None) else ([], None))\<rparr>"

definition exampleFs :: fs where
  "exampleFs =
     \<lparr>files = (\<lambda>p. NotExist),
      readonly = (\<lambda>p. False),
      config_dir = Some ''/home/user/.config/GoDash'',
      notes_dir = Some ''/home/user/.local/share/GoDash/notes'',
      notes_entries = Some [],
      notes_readonly = False\<rparr>"

definition todoPath :: string where
  "todoPath = ''/home/user/.local/share/GoDash/todo-list.json''"

definition settingsJSON :: "Settings \<Rightarrow> string" where
  "settingsJSON s =
     ''{'' @ [CHR 0x0A] @ ''  '' @ quote ''location'' @ '': '' @ quote (Location s) @ '','' @ [CHR 0x0A]
       @ ''  '' @ quote ''default_notes_created'' @ '': ''
       @ (if DefaultNotesCreated s then ''true'' else ''false'') @ [CHR 0x0A] @ ''}''"

definition exampleSettings :: "Settings list" where
  "exampleSettings =
     [\<lparr>Location = ''Athens'', DefaultNotesCreated = False\<rparr>,
      \<lparr>Location = ''Athens'', DefaultNotesCreated = True\<rparr>]"

definition exampleSettingsCodec :: "Settings codec" where
  "exampleSettingsCodec =
     \<lparr>Marshal = settingsJSON,
      checkValid = (\<lambda>d. d \<in> set (map settingsJSON exampleSettings)),
      decode = (\<lambda>d. case find (\<lambda>s. settingsJSON s = d) exampleSettings of
                        Some s \<Rightarrow> (s, None)
                      | None \<Rightarrow> (zeroSettings, Some ErrType))\<rparr>"

definition configPath :: string where
  "configPath = ''/home/user/.config/GoDash/config.json''"

definition emptyConfigFs :: fs where
  "emptyConfigFs = exampleFs\<lparr>files := (files exampleFs)(configPath := Data [])\<rparr>"

definition seededConfigFs :: fs where
  "seededConfigFs = exampleFs\<lparr>files := (files exampleFs)
      (configPath := Data (settingsJSON \<lparr>Location = ''Athens'', DefaultNotesCreated = True\<rparr>))\<rparr>"

text \<open>
  The calendar examples: a date picker that moves one day forward on the right arrow,
  a parser that reads the date of texts in the canonical shapes of the two layouts,
  and a ready calendar panel on 30 October 2025 whose cache holds October (no
  events) and whose last fetch started at second 100.
\<close>

definition isLeap :: "int \<Rightarrow> bool" where
  "isLeap y = (y mod 4 = 0 \<and> (if y mod 100 = 0 then y mod 400 = 0 else True))"

definition daysIn :: "int \<Rightarrow> nat \<Rightarrow> nat" where
  "daysIn y m =
     (if m = 2 then (if isLeap y then 29 else 28)
      else if m \<in> set [4, 6, 9, 11] then 30 else 31)"

definition nextDay :: "date \<Rightarrow> date" where
  "nextDay d =
     (if Day d < daysIn (Year d) (Month d) then d\<lparr>Day := Day d + 1\<rparr>
      else if Month d < 12 then d\<lparr>Month := Month d + 1, Day := 1\<rparr>
      else \<lparr>Year = Year d + 1, Month = 1, Day = 1\<rparr>)"

definition numVal :: "string \<Rightarrow> nat option" where
  "numVal s =
     (if s \<noteq> [] \<and> list_all isDigit s
      then Some (foldl (\<lambda>n c. 10 * n + length (takeWhile (\<lambda>x. x \<noteq> c) ''0123456789'')) 0 s)
      else None)"

definition parseYMD :: "string \<Rightarrow> date option" where
  "parseYMD s =
     (if length s = 10 \<and> s ! 4 = CHR ''-'' \<and> s ! 7 = CHR ''-''
      then (case (numVal (take 4 s), numVal (take 2 (drop 5 s)), numVal (drop 8 s)) of
              (Some y, Some m, Some d) \<Rightarrow>
                (if 1 \<le> m \<and> m \<le> 12 \<and> 1 \<le> d \<and> d \<le> daysIn (int y) m
                 then Some \<lparr>Year = int y, Month = m, Day = d\<rparr> else None)
            | _ \<Rightarrow> None)
      else None)"

definition exampleParse :: "layout \<Rightarrow> string \<Rightarrow> date option" where
  "exampleParse l s =
     (case l of
        DateOnly \<Rightarrow> parseYMD s
      | RFC3339 \<Rightarrow> (if 20 \<le> length s \<and> s ! 10 = CHR ''T'' then parseYMD (take 10 s) else None))"

definition exampleLib :: "unit lib" where
  "exampleLib =
     \<lparr>list_Update = (\<lambda>ms l. (l, [])),
      list_RemoveItem = (\<lambda>i l. l\<lparr>items := take i (items l) @ drop (Suc i) (items l)\<rparr>),
      textinput_Update = (\<lambda>ms ti. (ti, [])),
      datepicker_Update = (\<lambda>ms dp. case ms of
                              KeyMsg k \<Rightarrow> (if k = ''right'' then (dp\<lparr>Time := nextDay (Time dp)\<rparr>, [])
                                           else (dp, []))
                            | _ \<Rightarrow> (dp, [])),
      spinner_Update = (\<lambda>ms n. (n, [])),
      time_Parse = exampleParse,
      glamour_Render = (\<lambda>s. Some s),
      notes_Update = (\<lambda>ms f n. (n, []))\<rparr>"

definition novemberEvents :: "event list" where
  "novemberEvents =
     [\<lparr>Summary = ''Stand-up'', Start_DateTime = ''2025-11-03T10:00:00+02:00'', Start_Date = []\<rparr>,
      \<lparr>Summary = ''Broken'', Start_DateTime = ''tomorrow'', Start_Date = ''2025-11-03''\<rparr>,
      \<lparr>Summary = ''Dentist'', Start_DateTime = ''2025-11-04T09:30:00+02:00'', Start_Date = []\<rparr>,
      \<lparr>Summary = ''Name day'', Start_DateTime = [], Start_Date = ''2025-11-03''\<rparr>]"

definition exampleCalendar :: calendar_Model where
  "exampleCalendar =
     \<lparr>cal_state = StateReady,
      DatePicker = \<lparr>Time = \<lparr>Year = 2025, Month = 10, Day = 30\<rparr>, dp_Focused = FocusCalendar,
                    Selected = True\<rparr>,
      events = [],
      selectedDate = \<lparr>Year = 2025, Month = 10, Day = 30\<rparr>,
      cachedEvents = [''2025-10'' \<mapsto> []],
      fetchingMonths = Map.empty,
      lastFetchTime = 100000000000,
      err = None,
      loading = False,
      spinner = 0,
      clock = \<lparr>clock_Time = 100000000000\<rparr>,
      weather = Some ''Athens'',
      weatherErr = None,
      weatherLoading = False,
      location = ''Athens'',
      cal_width = 62,
      cal_height = 14\<rparr>"



definition exampleCalendarOct31 :: calendar_Model where
  "exampleCalendarOct31 =
     exampleCalendar\<lparr>DatePicker := \<lparr>Time = \<lparr>Year = 2025, Month = 10, Day = 31\<rparr>,
                                    dp_Focused = FocusCalendar, Selected = True\<rparr>,
                     selectedDate := \<lparr>Year = 2025, Month = 10, Day = 31\<rparr>\<rparr>"

definition exampleCalendarNov1 :: calendar_Model where
  "exampleCalendarNov1 =
     exampleCalendar\<lparr>DatePicker := \<lparr>Time = \<lparr>Year = 2025, Month = 11, Day = 1\<rparr>,
                                    dp_Focused = FocusCalendar, Selected = True\<rparr>,
                     selectedDate := \<lparr>Year = 2025, Month = 11, Day = 1\<rparr>\<rparr>"

section \<open>Properties\<close>

subsection \<open>Loading the task list\<close>

text \<open>
  C9. Loading tasks from a path that does not exist returns the eight default tasks,
  all not done and without description, and saves exactly these tasks to the path
  (the file then holds their JSON text unless the path cannot be written, an error
  the code ignores). For any other read error, and for content that fails the JSON
  syntax check, the result is the empty list and the file system is untouched. The
  function has no error result at all.
\<close>

theorem loadTasks_defaults_or_empty:
  "(files w p = NotExist \<longrightarrow>
      fst (loadTasks C p w) = defaultTasks \<and> length (fst (loadTasks C p w)) = 8
      \<and> list_all (\<lambda>t. \<not> Done t \<and> Description t = []) (fst (loadTasks C p w))
      \<and> snd (loadTasks C p w) = saveTasks C p defaultTasks w
      \<and> (\<not> readonly w p \<longrightarrow> files (snd (loadTasks C p w)) p = Data (Marshal C defaultTasks)))
   \<and> (files w p = Unreadable \<longrightarrow> loadTasks C p w = ([], w))
   \<and> (files w p = Data d \<and> (list_all isSpace d \<or> \<not> checkValid C d) \<longrightarrow> loadTasks C p w = ([], w))"
  by (auto simp: loadTasks_def os_ReadFile_def saveTasks_def os_WriteFile_def json_Unmarshal_def
        defaultTasks_def mkTask_def)

theorem loadTasks_defaults_or_empty_witness:
  "fst (loadTasks exampleTaskCodec todoPath exampleFs) = defaultTasks
   \<and> files (snd (loadTasks exampleTaskCodec todoPath exampleFs)) todoPath = Data (tasksJSON defaultTasks)
   \<and> loadTasks exampleTaskCodec todoPath (exampleFs\<lparr>files := (files exampleFs)(todoPath := Unreadable)\<rparr>)
       = ([], exampleFs\<lparr>files := (files exampleFs)(todoPath := Unreadable)\<rparr>)
   \<and> loadTasks exampleTaskCodec todoPath (exampleFs\<lparr>files := (files exampleFs)(todoPath := Data ''{oops'')\<rparr>)
       = ([], exampleFs\<lparr>files := (files exampleFs)(todoPath := Data ''{oops'')\<rparr>)"
proof -
  have a: "files exampleFs todoPath = NotExist" "\<not> readonly exampleFs todoPath"
    by (simp_all add: exampleFs_def)
  have m: "Marshal exampleTaskCodec = tasksJSON"
    by (simp add: exampleTaskCodec_def)
  have c: "\<not> checkValid exampleTaskCodec ''{oops''"
    by (simp add: exampleTaskCodec_def tasksJSON_def)
  from a m c
    loadTasks_defaults_or_empty [of exampleFs todoPath exampleTaskCodec "[]"]
    loadTasks_defaults_or_empty [of "exampleFs\<lparr>files := (files exampleFs)(todoPath := Unreadable)\<rparr>" todoPath exampleTaskCodec "[]"]
    loadTasks_defaults_or_empty [of "exampleFs\<lparr>files := (files exampleFs)(todoPath := Data ''{oops'')\<rparr>" todoPath exampleTaskCodec "''{oops''"]
  show ?thesis by (simp add: saveTasks_def os_WriteFile_def)
qed

subsection \<open>Loading the settings\<close>

lemma configPath_Join: "Join ''/home/user/.config/GoDash'' ''config.json'' = configPath"
  by (simp add: Join_def configPath_def)

text \<open>
  C8, as stated, fails: with a settings file of zero bytes \<open>LoadSettings\<close> returns the
  JSON syntax error and the zero-valued settings, whose location is empty, not the
  defaults.
\<close>

theorem LoadSettings_empty_file_counterexample:
  "LoadSettings exampleSettingsCodec emptyConfigFs
     = ((\<lparr>Location = [], DefaultNotesCreated = False\<rparr>, Some ErrSyntax), emptyConfigFs)"
  by (simp add: LoadSettings_def emptyConfigFs_def exampleFs_def configPath_Join os_ReadFile_def
        json_Unmarshal_def zeroSettings_def)

text \<open>
  C8, amended. When the settings file is missing and can be written,
  \<open>LoadSettings\<close> returns the defaults (location Athens, no default notes created)
  without an error and writes them to the file. When the file exists and is empty,
  it returns the JSON syntax error with zero-valued settings and writes nothing.
\<close>

theorem LoadSettings_missing_or_empty:
  "config_dir w = Some d \<Longrightarrow>
   (files w (Join d ''config.json'') = NotExist \<and> \<not> readonly w (Join d ''config.json'') \<longrightarrow>
      fst (LoadSettings C w) = (\<lparr>Location = ''Athens'', DefaultNotesCreated = False\<rparr>, None)
      \<and> files (snd (LoadSettings C w)) (Join d ''config.json'')
          = Data (Marshal C \<lparr>Location = ''Athens'', DefaultNotesCreated = False\<rparr>))
   \<and> (files w (Join d ''config.json'') = Data [] \<longrightarrow>
      LoadSettings C w = ((\<lparr>Location = [], DefaultNotesCreated = False\<rparr>, Some ErrSyntax), w))"
  by (simp add: LoadSettings_def os_ReadFile_def os_WriteFile_def json_Unmarshal_def zeroSettings_def
        Let_def)

theorem LoadSettings_missing_or_empty_witness:
  "fst (LoadSettings exampleSettingsCodec exampleFs)
     = (\<lparr>Location = ''Athens'', DefaultNotesCreated = False\<rparr>, None)
   \<and> files (snd (LoadSettings exampleSettingsCodec exampleFs)) configPath
     = Data (settingsJSON \<lparr>Location = ''Athens'', DefaultNotesCreated = False\<rparr>)
   \<and> snd (fst (LoadSettings exampleSettingsCodec emptyConfigFs)) = Some ErrSyntax"
proof -
  have a: "config_dir exampleFs = Some ''/home/user/.config/GoDash''"
    "files exampleFs configPath = NotExist" "\<not> readonly exampleFs configPath"
    by (simp_all add: exampleFs_def)
  have b: "config_dir emptyConfigFs = Some ''/home/user/.config/GoDash''"
    "files emptyConfigFs configPath = Data []"
    by (simp_all add: emptyConfigFs_def exampleFs_def)
  have m: "Marshal exampleSettingsCodec = settingsJSON"
    by (simp add: exampleSettingsCodec_def)
  from a b m
    LoadSettings_missing_or_empty [of exampleFs "''/home/user/.config/GoDash''" exampleSettingsCodec]
    LoadSettings_missing_or_empty [of emptyConfigFs "''/home/user/.config/GoDash''" exampleSettingsCodec]
  show ?thesis by (simp add: configPath_Join)
qed

subsection \<open>Loading and seeding the notes\<close>

lemma LoadSettings_keeps:
  "notes_entries (snd (LoadSettings C w)) = notes_entries w"
  "notes_readonly (snd (LoadSettings C w)) = notes_readonly w"
  "notes_dir (snd (LoadSettings C w)) = notes_dir w"
  "config_dir (snd (LoadSettings C w)) = config_dir w"
  "readonly (snd (LoadSettings C w)) = readonly w"
  by (auto simp: LoadSettings_def os_ReadFile_def os_WriteFile_def Let_def
        split: option.splits file_state.splits prod.splits)

lemma LoadSettings_flag_set:
  "fst (LoadSettings C w) = (s, None) \<Longrightarrow> DefaultNotesCreated s \<Longrightarrow> snd (LoadSettings C w) = w"
  by (auto simp: LoadSettings_def os_ReadFile_def os_WriteFile_def Let_def
        split: option.splits file_state.splits prod.splits if_splits)

lemma seed_names:
  "isMarkdown (welcomeFilename, False)" "isMarkdown (keybindingsFilename, False)"
  "welcomeFilename \<noteq> keybindingsFilename"
  by (simp_all add: isMarkdown_def HasSuffix_def welcomeFilename_def keybindingsFilename_def
        sanitizeFilename_def ReplaceAll1_def isAlnumHyphen_def)

lemma no_markdown_sorted:
  "filter isMarkdown (sort_key fst es) = [] \<longleftrightarrow> filter isMarkdown es = []"
  by (simp add: filter_empty_conv)

lemma createDefaultNotes_writes:
  assumes "notes_entries w = Some es" "filter isMarkdown es = []" "\<not> notes_readonly w"
    "(welcomeFilename, True) \<notin> set es" "(keybindingsFilename, True) \<notin> set es"
  shows "createDefaultNotes w
           = w\<lparr>notes_entries := Some (es @ [(welcomeFilename, False), (keybindingsFilename, False)])\<rparr>"
proof -
  from assms(2) have "(welcomeFilename, False) \<notin> set es" "(keybindingsFilename, False) \<notin> set es"
    using seed_names by (auto simp: filter_empty_conv)
  with assms seed_names(3) show ?thesis
    by (simp add: createDefaultNotes_def write_note_def)
qed

lemma loadNotes_flag_set:
  assumes "notes_dir w = Some nd" "notes_entries w = Some es" "filter isMarkdown es = []"
    "fst (LoadSettings C w) = (s, None)" "DefaultNotesCreated s"
  shows "loadNotes C w = (Inr [], w)"
proof -
  have "LoadSettings C w = ((s, None), w)"
    using assms(4,5) LoadSettings_flag_set [of C w s] by (cases "LoadSettings C w") auto
  with assms show ?thesis
    by (simp add: loadNotes_def os_ReadDir_def no_markdown_sorted notesOf_def)
qed

lemma loadNotes_seeding:
  assumes "notes_dir w = Some nd" "notes_entries w = Some es" "filter isMarkdown es = []"
    "fst (LoadSettings C w) = (s, None)" "\<not> DefaultNotesCreated s"
    "config_dir w = Some cd" "\<not> readonly w (Join cd ''config.json'')" "\<not> notes_readonly w"
    "(welcomeFilename, True) \<notin> set es" "(keybindingsFilename, True) \<notin> set es"
  shows "notes_entries (snd (loadNotes C w))
           = Some (es @ [(welcomeFilename, False), (keybindingsFilename, False)])"
    and "files (snd (loadNotes C w)) (Join cd ''config.json'')
           = Data (Marshal C (s\<lparr>DefaultNotesCreated := True\<rparr>))"
    and "\<exists>ns. fst (loadNotes C w) = Inr ns \<and> length ns = 2"
    and "config_dir (snd (loadNotes C w)) = Some cd"
    and "notes_dir (snd (loadNotes C w)) = Some nd"
proof -
  define w1 where "w1 = snd (LoadSettings C w)"
  define es' where "es' = es @ [(welcomeFilename, False), (keybindingsFilename, False)]"
  have ls: "LoadSettings C w = ((s, None), w1)"
    using assms(4) by (cases "LoadSettings C w") (auto simp: w1_def)
  have k: "notes_entries w1 = Some es" "\<not> notes_readonly w1" "config_dir w1 = Some cd"
    "\<not> readonly w1 (Join cd ''config.json'')" "notes_dir w1 = Some nd"
    using assms by (simp_all add: w1_def LoadSettings_keeps)
  have c: "createDefaultNotes w1 = w1\<lparr>notes_entries := Some es'\<rparr>"
    using createDefaultNotes_writes [OF k(1) assms(3) k(2)] assms(9,10) by (simp add: es'_def)
  have r: "loadNotes C w
        = (Inr (notesOf nd (sort_key fst es')),
           snd (SaveSettings C (s\<lparr>DefaultNotesCreated := True\<rparr>) (w1\<lparr>notes_entries := Some es'\<rparr>)))"
    using assms ls c k
    by (simp add: loadNotes_def os_ReadDir_def no_markdown_sorted SaveSettings_def os_WriteFile_def)
  have f: "filter isMarkdown es' = [(welcomeFilename, False), (keybindingsFilename, False)]"
    using assms(3) seed_names by (simp add: es'_def)
  have l: "length (notesOf nd (sort_key fst es')) = 2"
    by (simp add: notesOf_def filter_sort f)
  from r k show "notes_entries (snd (loadNotes C w))
           = Some (es @ [(welcomeFilename, False), (keybindingsFilename, False)])"
    by (simp add: SaveSettings_def os_WriteFile_def es'_def)
  from r k show "files (snd (loadNotes C w)) (Join cd ''config.json'')
           = Data (Marshal C (s\<lparr>DefaultNotesCreated := True\<rparr>))"
    by (simp add: SaveSettings_def os_WriteFile_def)
  from r l show "\<exists>ns. fst (loadNotes C w) = Inr ns \<and> length ns = 2"
    by simp
  from r k show "config_dir (snd (loadNotes C w)) = Some cd"
    by (simp add: SaveSettings_def os_WriteFile_def)
  from r k show "notes_dir (snd (loadNotes C w)) = Some nd"
    by (simp add: SaveSettings_def os_WriteFile_def)
qed

text \<open>
  Once the flag is saved it is read back as set, provided the JSON codec reads back
  what it wrote; then a later load of a directory emptied by the user writes nothing.
\<close>

lemma seeding_not_repeated:
  assumes "notes_dir w = Some nd" "notes_entries w = Some es" "filter isMarkdown es = []"
    "fst (LoadSettings C w) = (s, None)" "\<not> DefaultNotesCreated s"
    "config_dir w = Some cd" "\<not> readonly w (Join cd ''config.json'')" "\<not> notes_readonly w"
    "(welcomeFilename, True) \<notin> set es" "(keybindingsFilename, True) \<notin> set es"
    and roundtrip: "json_Unmarshal C zeroSettings (Marshal C (s\<lparr>DefaultNotesCreated := True\<rparr>))
                      = (s\<lparr>DefaultNotesCreated := True\<rparr>, None)"
    and emptied: "filter isMarkdown es2 = []"
  shows "loadNotes C ((snd (loadNotes C w))\<lparr>notes_entries := Some es2\<rparr>)
           = (Inr [], (snd (loadNotes C w))\<lparr>notes_entries := Some es2\<rparr>)"
proof -
  define w' where "w' = (snd (loadNotes C w))\<lparr>notes_entries := Some es2\<rparr>"
  note sd = loadNotes_seeding [OF assms(1-10)]
  have a: "notes_dir w' = Some nd" "notes_entries w' = Some es2" "config_dir w' = Some cd"
    "files w' (Join cd ''config.json'') = Data (Marshal C (s\<lparr>DefaultNotesCreated := True\<rparr>))"
    using sd by (simp_all add: w'_def)
  have "\<exists>s'. fst (LoadSettings C w') = (s', None) \<and> DefaultNotesCreated s'"
    using a roundtrip by (simp add: LoadSettings_def os_ReadFile_def)
  then obtain s' where "fst (LoadSettings C w') = (s', None)" "DefaultNotesCreated s'"
    by blast
  from loadNotes_flag_set [OF a(1,2) emptied this] show ?thesis
    by (simp add: w'_def)
qed

text \<open>
  C7. Let the notes directory hold no markdown file. When the settings load without
  error with the flag unset, \<open>loadNotes\<close> writes exactly the two seed documents (the
  directory gains these two entries and the returned list has two notes) and saves the
  settings with the flag set; this is stated for writes that succeed (a writable notes
  directory in which no subdirectory bears a seed's name, a writable settings file),
  whose errors the code ignores. When the flag is already set, nothing is written at
  all and the list is empty.
\<close>

theorem loadNotes_seeds_once:
  assumes "notes_dir w = Some nd" "notes_entries w = Some es" "filter isMarkdown es = []"
  shows "(fst (LoadSettings C w) = (s, None) \<and> \<not> DefaultNotesCreated s
          \<and> config_dir w = Some cd \<and> \<not> readonly w (Join cd ''config.json'')
          \<and> \<not> notes_readonly w
          \<and> (welcomeFilename, True) \<notin> set es \<and> (keybindingsFilename, True) \<notin> set es
          \<longrightarrow> notes_entries (snd (loadNotes C w))
                = Some (es @ [(welcomeFilename, False), (keybindingsFilename, False)])
              \<and> files (snd (loadNotes C w)) (Join cd ''config.json'')
                = Data (Marshal C (s\<lparr>DefaultNotesCreated := True\<rparr>))
              \<and> (\<exists>ns. fst (loadNotes C w) = Inr ns \<and> length ns = 2))
         \<and> (fst (LoadSettings C w) = (s, None) \<and> DefaultNotesCreated s
          \<longrightarrow> loadNotes C w = (Inr [], w))"
  using loadNotes_seeding(1-3) [OF assms] loadNotes_flag_set [OF assms] by blast

theorem loadNotes_seeds_once_witness:
  "notes_entries (snd (loadNotes exampleSettingsCodec exampleFs))
     = Some [(welcomeFilename, False), (keybindingsFilename, False)]
   \<and> files (snd (loadNotes exampleSettingsCodec exampleFs)) configPath
     = Data (settingsJSON \<lparr>Location = ''Athens'', DefaultNotesCreated = True\<rparr>)
   \<and> loadNotes exampleSettingsCodec seededConfigFs = (Inr [], seededConfigFs)"
proof -
  let ?cd = "''/home/user/.config/GoDash''"
  let ?nd = "''/home/user/.local/share/GoDash/notes''"
  have a: "notes_dir exampleFs = Some ?nd" "notes_entries exampleFs = Some []"
    "filter isMarkdown [] = []" "config_dir exampleFs = Some ?cd"
    "\<not> readonly exampleFs configPath" "\<not> notes_readonly exampleFs"
    by (simp_all add: exampleFs_def)
  have b: "notes_dir seededConfigFs = Some ?nd" "notes_entries seededConfigFs = Some []"
    by (simp_all add: seededConfigFs_def exampleFs_def)
  have l1: "fst (LoadSettings exampleSettingsCodec exampleFs)
              = (\<lparr>Location = ''Athens'', DefaultNotesCreated = False\<rparr>, None)"
    by (simp add: LoadSettings_def exampleFs_def os_ReadFile_def os_WriteFile_def Let_def)
  have l2: "fst (LoadSettings exampleSettingsCodec seededConfigFs)
              = (\<lparr>Location = ''Athens'', DefaultNotesCreated = True\<rparr>, None)"
    by (simp add: LoadSettings_def seededConfigFs_def exampleFs_def configPath_Join os_ReadFile_def
          json_Unmarshal_def exampleSettingsCodec_def settingsJSON_def exampleSettings_def
          quote_def isSpace_def)
  have m: "Marshal exampleSettingsCodec = settingsJSON"
    by (simp add: exampleSettingsCodec_def)
  from a l1 m
    loadNotes_seeds_once [OF a(1,2,3), of exampleSettingsCodec
      "\<lparr>Location = ''Athens'', DefaultNotesCreated = False\<rparr>" ?cd]
    loadNotes_seeds_once [OF b a(3), of exampleSettingsCodec
      "\<lparr>Location = ''Athens'', DefaultNotesCreated = True\<rparr>" ?cd]
    l2
  show ?thesis by (simp add: configPath_Join)
qed

subsection \<open>The todo panel\<close>

lemma Matches_enter: "Matches ''enter'' [tk_SaveTask todoKeys, tk_Confirm todoKeys]"
  by (simp add: Matches_def Enabled_def todoKeys_def keys_def NewBinding_def)

text \<open>
  Confirming in the adding state with an empty buffer appends nothing and returns to
  the default state.
\<close>

lemma todo_add_confirm_empty_ignored:
  "Matches k [tk_SaveTask (todo_keys m), tk_Confirm (todo_keys m)] \<Longrightarrow> State m = ListStateAdding
   \<Longrightarrow> Value (TextInput m) = []
   \<Longrightarrow> items (List (fst (todo_Update L (KeyMsg k) True m))) = items (List m)
       \<and> State (fst (todo_Update L (KeyMsg k) True m)) = ListStateDefault"
  by (simp add: todo_Update_def todo_input_def todo_confirm_def split: prod.splits)

text \<open>
  C4. Empty input is to be ignored on confirm in the adding and in the editing state,
  leaving every title as it was. The editing path has no such check: with the single
  task "Buy milk" selected and an empty buffer, pressing enter replaces the title by
  the empty string, saves that list and returns to the default state.
\<close>

theorem todo_edit_confirm_empty_blanks_title:
  "items (List (fst (todo_Update L (KeyMsg ''enter'') True
      \<lparr>List = \<lparr>items = [mkTask ''Buy milk''], filteredItems = [], filterState = Unfiltered, index = 0\<rparr>,
       TextInput = \<lparr>Value = [], Focused = True\<rparr>,
       State = ListStateEditing, todo_keys = todoKeys, path = p\<rparr>))) = [mkTask []]
   \<and> State (fst (todo_Update L (KeyMsg ''enter'') True
      \<lparr>List = \<lparr>items = [mkTask ''Buy milk''], filteredItems = [], filterState = Unfiltered, index = 0\<rparr>,
       TextInput = \<lparr>Value = [], Focused = True\<rparr>,
       State = ListStateEditing, todo_keys = todoKeys, path = p\<rparr>)) = ListStateDefault
   \<and> snd (snd (todo_Update L (KeyMsg ''enter'') True
      \<lparr>List = \<lparr>items = [mkTask ''Buy milk''], filteredItems = [], filterState = Unfiltered, index = 0\<rparr>,
       TextInput = \<lparr>Value = [], Focused = True\<rparr>,
       State = ListStateEditing, todo_keys = todoKeys, path = p\<rparr>)) = [SaveTasks p [mkTask []]]"
  by (simp add: todo_Update_def todo_input_def todo_confirm_def Matches_enter SelectedItem_def
        VisibleItems_def SetItem_def mkTask_def Reset_def split: prod.splits)

subsection \<open>The dashboard\<close>

lemma focus_updateKeybindings [simp]: "focus (updateKeybindings m) = focus m"
  by (simp add: updateKeybindings_def Let_def)

lemma todo_updateKeybindings [simp]: "todo (updateKeybindings m) = todo m"
  by (simp add: updateKeybindings_def Let_def)

lemma calendar_updateKeybindings [simp]: "calendar (updateKeybindings m) = calendar m"
  by (simp add: updateKeybindings_def Let_def)

lemma width_updateKeybindings [simp]: "width (updateKeybindings m) = width m"
  by (simp add: updateKeybindings_def Let_def)

text \<open>In the default state of the todo panel a clock tick reaches the calendar panel.\<close>

lemma tick_reaches_calendar_in_default:
  "State (todo m) = ListStateDefault \<Longrightarrow>
   calendar (fst (updateDashboard L now TickMsg m))
     = fst (calendar_Update L now TickMsg (focus m = focusCalendar) (calendar m))"
  by (simp add: updateDashboard_def split: prod.splits)

text \<open>
  C5. Every panel is to receive the passive ticks whatever the focus, also while the
  todo panel is adding or editing. In that state \<open>updateDashboard\<close> returns after
  updating the todo panel only: a clock tick leaves the calendar panel as it was and
  the batch holds only what the text input returned, although the calendar's own
  \<open>Update\<close> would have set the clock to the current time and asked for the next tick.
\<close>

theorem tick_dropped_while_adding:
  "calendar (fst (updateDashboard L now TickMsg (m\<lparr>todo := (todo m)\<lparr>State := ListStateAdding\<rparr>\<rparr>)))
     = calendar m
   \<and> fst (snd (updateDashboard L now TickMsg
         (m\<lparr>focus := focusList, todo := (todo m)\<lparr>State := ListStateAdding\<rparr>\<rparr>)))
     = map LibCmd (snd (textinput_Update L TickMsg (TextInput (todo m))))
   \<and> clock (fst (calendar_Update L now TickMsg False (calendar m))) = \<lparr>clock_Time = now\<rparr>
   \<and> Tick \<in> set (fst (snd (calendar_Update L now TickMsg False (calendar m))))"
  by (auto simp: updateDashboard_def todo_Update_def todo_input_def calendar_Update_def
        calendar_passive_def clock_Update_def Let_def split: prod.splits if_splits)

text \<open>
  C6. A left click is to focus the panel that is rendered under it. On a terminal of
  140 by 40 cells the left column is rendered 70 cells wide, but the click handler
  takes it to be 56 cells wide: a press at column 60, inside the rendered todo box,
  focuses the notes panel.
\<close>

theorem click_boundary_differs_from_render:
  "focus (fst (updateDashboard L now
       (MouseMsg \<lparr>X = 60, Y = 5, Action = MouseActionPress, Button = MouseButtonLeft\<rparr>)
       (m\<lparr>width := 140, height := 40, todo := (todo m)\<lparr>State := ListStateDefault\<rparr>\<rparr>))) = focusNotes
   \<and> leftColumnWidth (m\<lparr>width := 140, height := 40, todo := (todo m)\<lparr>State := ListStateDefault\<rparr>\<rparr>) = 70
   \<and> clickLeftColumnWidth (m\<lparr>width := 140, height := 40, todo := (todo m)\<lparr>State := ListStateDefault\<rparr>\<rparr>) = 56"
  by (simp add: updateDashboard_def clickFocus_def clickLeftColumnWidth_def leftColumnWidth_def
        signed_divide_int_def Let_def split: prod.splits)

subsection \<open>The calendar panel\<close>

lemma filterLoop_filter:
  "filterLoop L sel es acc = acc @ filter (startsOn L sel) es"
  by (induction es arbitrary: acc) (auto simp: startsOn_def sameDay_def split: option.splits)

text \<open>
  C3. When the month of the selected date is in the cache,
  \<open>filterEventsForSelectedDate\<close> sets the daily events to exactly the cached events of
  that month whose start (the date-time field when it is not empty, the date field
  otherwise) parses and has the year, month and day of the selected date; they keep
  their order, and events whose start does not parse are left out.
\<close>

theorem filterEventsForSelectedDate_exact:
  "cachedEvents m (monthKey (selectedDate m)) = Some evs \<Longrightarrow>
   events (filterEventsForSelectedDate L m) = filter (startsOn L (selectedDate m)) evs
   \<and> subseq (events (filterEventsForSelectedDate L m)) evs"
  by (simp add: filterEventsForSelectedDate_def filterLoop_filter)

lemma monthKey_november: "monthKey \<lparr>Year = 2025, Month = 11, Day = dd\<rparr> = ''2025-11''"
  by (simp add: monthKey_def zeroPad_def digits.simps digit_def)

lemma monthKey_october: "monthKey \<lparr>Year = 2025, Month = 10, Day = dd\<rparr> = ''2025-10''"
  by (simp add: monthKey_def zeroPad_def digits.simps digit_def)

lemma eventDate_november:
  "map (eventDate exampleLib) novemberEvents
     = [Some \<lparr>Year = 2025, Month = 11, Day = 3\<rparr>, None,
        Some \<lparr>Year = 2025, Month = 11, Day = 4\<rparr>, Some \<lparr>Year = 2025, Month = 11, Day = 3\<rparr>]"
  by (simp add: novemberEvents_def eventDate_def exampleLib_def exampleParse_def parseYMD_def
        numVal_def isDigit_def daysIn_def isLeap_def)

theorem filterEventsForSelectedDate_exact_witness:
  "events (filterEventsForSelectedDate exampleLib
      (exampleCalendar\<lparr>selectedDate := \<lparr>Year = 2025, Month = 11, Day = 3\<rparr>,
                        cachedEvents := [''2025-11'' \<mapsto> novemberEvents]\<rparr>))
     = [\<lparr>Summary = ''Stand-up'', Start_DateTime = ''2025-11-03T10:00:00+02:00'', Start_Date = []\<rparr>,
        \<lparr>Summary = ''Name day'', Start_DateTime = [], Start_Date = ''2025-11-03''\<rparr>]"
proof -
  let ?m = "exampleCalendar\<lparr>selectedDate := \<lparr>Year = 2025, Month = 11, Day = 3\<rparr>,
                             cachedEvents := [''2025-11'' \<mapsto> novemberEvents]\<rparr>"
  have c: "cachedEvents ?m (monthKey (selectedDate ?m)) = Some novemberEvents"
    by (simp add: monthKey_november)
  have f: "filter (startsOn exampleLib \<lparr>Year = 2025, Month = 11, Day = 3\<rparr>) novemberEvents
             = [novemberEvents ! 0, novemberEvents ! 3]"
    using eventDate_november by (simp add: novemberEvents_def startsOn_def)
  from filterEventsForSelectedDate_exact [OF c, of exampleLib] f show ?thesis
    by (simp add: novemberEvents_def)
qed

lemma digit_isDigit: "d < 10 \<Longrightarrow> isDigit (digit d)"
proof -
  assume "d < 10"
  then have "d \<in> {0, 1, 2, 3, 4, 5, 6, 7, 8, 9}" by auto
  then show ?thesis by (auto simp: isDigit_def digit_def)
qed

lemma digits_isDigit: "list_all isDigit (digits n)"
proof (induction n rule: digits.induct)
  case (1 n)
  then show ?case
    by (subst digits.simps) (simp add: digit_isDigit)
qed

lemma digits_length: "n < 10 ^ k \<Longrightarrow> 0 < k \<Longrightarrow> length (digits n) \<le> k"
proof (induction n arbitrary: k rule: digits.induct)
  case (1 n)
  show ?case
  proof (cases "n < 10")
    case True
    with 1(3) show ?thesis by (subst digits.simps) simp
  next
    case False
    with 1(2) have k: "1 < k" by (cases "k = 1") (use 1(3) in auto)
    then obtain j where j: "k = Suc j" "0 < j" by (cases k) auto
    with 1(2) have "n div 10 < 10 ^ j" by (simp add: less_mult_imp_div_less mult.commute)
    with 1(1) [OF False this j(2)] j False show ?thesis
      by (subst digits.simps) simp
  qed
qed

lemma digits_nonempty: "digits n \<noteq> []"
  by (subst digits.simps) simp

text \<open>For a year of at most four digits the month key has the shape \<open>YYYY-MM\<close>.\<close>

lemma monthKey_shape:
  assumes "0 \<le> Year d" "Year d \<le> 9999" "Month d \<le> 12"
  shows "length (monthKey d) = 7 \<and> monthKey d ! 4 = CHR ''-''
         \<and> list_all isDigit (take 4 (monthKey d)) \<and> list_all isDigit (drop 5 (monthKey d))"
proof -
  have isz: "isDigit (CHR ''0'')" by (simp add: isDigit_def)
  have "nat \<bar>Year d\<bar> < 10 ^ 4" using assms by simp
  then have y: "length (digits (nat \<bar>Year d\<bar>)) \<le> 4" by (rule digits_length) simp
  have "Month d < 10 ^ 2" using assms by simp
  then have m: "length (digits (Month d)) \<le> 2" by (rule digits_length) simp
  have ly: "length (zeroPad 4 (digits (nat \<bar>Year d\<bar>))) = 4" using y by (simp add: zeroPad_def)
  have lm: "length (zeroPad 2 (digits (Month d))) = 2" using m by (simp add: zeroPad_def)
  have dy: "list_all isDigit (zeroPad 4 (digits (nat \<bar>Year d\<bar>)))"
    using digits_isDigit isz by (auto simp: zeroPad_def list_all_iff)
  have dm: "list_all isDigit (zeroPad 2 (digits (Month d)))"
    using digits_isDigit isz by (auto simp: zeroPad_def list_all_iff)
  from assms(1) ly lm dy dm show ?thesis
    by (simp add: monthKey_def nth_append)
qed

lemma fetches_append [simp]: "fetches (xs @ ys) = fetches xs @ fetches ys"
  by (induction xs rule: fetches.induct) simp_all

lemma fetches_LibCmd [simp]: "fetches (map LibCmd c) = []"
  by (induction c) simp_all

lemma fetches_clock [simp]: "fetches (snd (clock_Update now ms c)) = []"
  by (cases ms) (simp_all add: clock_Update_def)

lemma since_cooldown:
  "fetchCoolDown < time_Since now t \<longleftrightarrow> fetchCoolDown < now - t"
  by (simp add: time_Since_def maxDuration_def minDuration_def fetchCoolDown_def Let_def)

text \<open>What one focused, ready call of \<open>Update\<close> does with a message that is not data.\<close>

lemma calendar_Update_navigate:
  assumes "\<not> isDataMsg ms" "cal_state m = StateReady"
  shows "fst (calendar_Update L now ms True m)
           = fst (navigate L now ms (fst (calendar_passive L now ms False m)))"
    and "fetches (fst (snd (calendar_Update L now ms True m)))
           = fetches (snd (navigate L now ms (fst (calendar_passive L now ms False m))))"
    and "snd (snd (calendar_Update L now ms True m)) = []"
  using assms
  by (cases ms; simp add: calendar_Update_def calendar_passive_def clock_Update_def Let_def
        split: prod.splits if_splits)+

lemma passive_keeps:
  "DatePicker (fst (calendar_passive L now ms False m)) = DatePicker m"
  "selectedDate (fst (calendar_passive L now ms False m)) = selectedDate m"
  "cachedEvents (fst (calendar_passive L now ms False m)) = cachedEvents m"
  "fetchingMonths (fst (calendar_passive L now ms False m)) = fetchingMonths m"
  "lastFetchTime (fst (calendar_passive L now ms False m)) = lastFetchTime m"
  by (simp_all add: calendar_passive_def Let_def split: prod.splits)


lemma isFetching_passive:
  "isFetching (fst (calendar_passive L now ms False m)) k = isFetching m k"
  by (simp add: isFetching_def passive_keeps)

lemma navigate_hit:
  assumes "datepicker_Update L ms (SelectDate (SetFocus FocusCalendar (DatePicker m))) = (dp, c)"
    and "\<not> sameDay (Time dp) (selectedDate m)"
    and "cachedEvents m (monthKey (Time dp)) = Some evs"
  shows "navigate L now ms m
           = ((filterEventsForSelectedDate L (m\<lparr>DatePicker := dp, selectedDate := Time dp\<rparr>))
                \<lparr>loading := False\<rparr>, map LibCmd c)"
  using assms by (simp add: navigate_def Let_def)

lemma navigate_miss:
  assumes "datepicker_Update L ms (SelectDate (SetFocus FocusCalendar (DatePicker m))) = (dp, c)"
    and "\<not> sameDay (Time dp) (selectedDate m)"
    and "cachedEvents m (monthKey (Time dp)) = None"
  shows "navigate L now ms m
           = (if \<not> isFetching m (monthKey (Time dp)) \<and> fetchCoolDown < now - lastFetchTime m
              then (m\<lparr>DatePicker := dp, selectedDate := Time dp, loading := True,
                      fetchingMonths := (fetchingMonths m)(monthKey (Time dp) \<mapsto> True),
                      lastFetchTime := now\<rparr>,
                    map LibCmd c @ [FetchEventsForMonth (Time dp)])
              else (m\<lparr>DatePicker := dp, selectedDate := Time dp\<rparr>, map LibCmd c))"
  using assms by (simp add: navigate_def Let_def since_cooldown isFetching_def)

text \<open>
  C2. A navigation step (the panel focused and ready, a message that is not data, the
  date picker moving to a day other than the selected one) to a date whose month key
  is in the cache, with whatever event list, even an empty one: no fetch command is
  issued and nothing is saved, the cache, the in-flight map and the time of the last
  fetch stay as they were, and the daily events become the cached events of the month
  that start on the new date.
\<close>

theorem cache_hit_refilters_only:
  assumes "\<not> isDataMsg ms" "cal_state m = StateReady"
    and "Time (fst (datepicker_Update L ms (SelectDate (SetFocus FocusCalendar (DatePicker m))))) = d"
    and "\<not> sameDay d (selectedDate m)"
    and "cachedEvents m (monthKey d) = Some evs"
  shows "fetches (fst (snd (calendar_Update L now ms True m))) = []
         \<and> snd (snd (calendar_Update L now ms True m)) = []
         \<and> cachedEvents (fst (calendar_Update L now ms True m)) = cachedEvents m
         \<and> fetchingMonths (fst (calendar_Update L now ms True m)) = fetchingMonths m
         \<and> lastFetchTime (fst (calendar_Update L now ms True m)) = lastFetchTime m
         \<and> selectedDate (fst (calendar_Update L now ms True m)) = d
         \<and> events (fst (calendar_Update L now ms True m)) = filter (startsOn L d) evs"
proof -
  define m0 where "m0 = fst (calendar_passive L now ms False m)"
  obtain dp c where u: "datepicker_Update L ms (SelectDate (SetFocus FocusCalendar (DatePicker m))) = (dp, c)"
    by (cases "datepicker_Update L ms (SelectDate (SetFocus FocusCalendar (DatePicker m)))")
  with assms(3) have d: "Time dp = d" by simp
  have n: "navigate L now ms m0
             = ((filterEventsForSelectedDate L (m0\<lparr>DatePicker := dp, selectedDate := d\<rparr>))
                  \<lparr>loading := False\<rparr>, map LibCmd c)"
    using navigate_hit [of L ms m0 dp c evs now] u d assms(4,5)
    by (simp add: m0_def passive_keeps)
  have k: "cachedEvents m0 = cachedEvents m" "fetchingMonths m0 = fetchingMonths m"
    "lastFetchTime m0 = lastFetchTime m"
    by (simp_all add: m0_def passive_keeps)
  show ?thesis
    using n k assms(5)
    by (simp add: calendar_Update_navigate [OF assms(1,2)] m0_def [symmetric]
          filterEventsForSelectedDate_def filterLoop_filter)
qed

text \<open>
  C1. A navigation step to a date whose month is neither cached nor in flight. While
  no more than five seconds have passed since the last fetch was started, no fetch is
  issued, and the cache, the in-flight map and the time of the last fetch are left
  alone, so the month can be asked for again. Once more than five seconds have
  passed, the step issues exactly one fetch, for the new date, marks the month in
  flight and records the current instant as the time of the last fetch. Both parts
  hold in every state, hence after any sequence of steps.
\<close>

theorem cooldown_defers_fetch:
  assumes "\<not> isDataMsg ms" "cal_state m = StateReady"
    and "Time (fst (datepicker_Update L ms (SelectDate (SetFocus FocusCalendar (DatePicker m))))) = d"
    and "\<not> sameDay d (selectedDate m)"
    and "cachedEvents m (monthKey d) = None"
    and "\<not> isFetching m (monthKey d)"
  shows "(now - lastFetchTime m \<le> fetchCoolDown \<longrightarrow>
            fetches (fst (snd (calendar_Update L now ms True m))) = []
            \<and> cachedEvents (fst (calendar_Update L now ms True m)) = cachedEvents m
            \<and> fetchingMonths (fst (calendar_Update L now ms True m)) = fetchingMonths m
            \<and> lastFetchTime (fst (calendar_Update L now ms True m)) = lastFetchTime m
            \<and> selectedDate (fst (calendar_Update L now ms True m)) = d)
         \<and> (fetchCoolDown < now - lastFetchTime m \<longrightarrow>
            fetches (fst (snd (calendar_Update L now ms True m))) = [d]
            \<and> isFetching (fst (calendar_Update L now ms True m)) (monthKey d)
            \<and> lastFetchTime (fst (calendar_Update L now ms True m)) = now
            \<and> loading (fst (calendar_Update L now ms True m))
            \<and> cachedEvents (fst (calendar_Update L now ms True m)) = cachedEvents m)"
proof -
  define m0 where "m0 = fst (calendar_passive L now ms False m)"
  obtain dp c where u: "datepicker_Update L ms (SelectDate (SetFocus FocusCalendar (DatePicker m))) = (dp, c)"
    by (cases "datepicker_Update L ms (SelectDate (SetFocus FocusCalendar (DatePicker m)))")
  with assms(3) have d: "Time dp = d" by simp
  have k: "cachedEvents m0 = cachedEvents m" "fetchingMonths m0 = fetchingMonths m"
    "lastFetchTime m0 = lastFetchTime m" "isFetching m0 (monthKey d) = isFetching m (monthKey d)"
    by (simp_all add: m0_def passive_keeps isFetching_passive)
  have n: "navigate L now ms m0
           = (if fetchCoolDown < now - lastFetchTime m
              then (m0\<lparr>DatePicker := dp, selectedDate := d, loading := True,
                       fetchingMonths := (fetchingMonths m)(monthKey d \<mapsto> True),
                       lastFetchTime := now\<rparr>,
                    map LibCmd c @ [FetchEventsForMonth d])
              else (m0\<lparr>DatePicker := dp, selectedDate := d\<rparr>, map LibCmd c))"
    using navigate_miss [of L ms m0 dp c now] u d assms(4,5,6) k
    by (simp add: m0_def passive_keeps)
  show ?thesis
    using n k
    by (simp add: calendar_Update_navigate [OF assms(1,2)] m0_def [symmetric] isFetching_def)
qed

lemma example_right:
  "datepicker_Update exampleLib (KeyMsg ''right'') (SelectDate (SetFocus FocusCalendar dp))
     = (dp\<lparr>Time := nextDay (Time dp), dp_Focused := FocusCalendar, Selected := True\<rparr>, [])"
  by (simp add: exampleLib_def SelectDate_def SetFocus_def)

lemma example_nextDay:
  "nextDay \<lparr>Year = 2025, Month = 10, Day = 30\<rparr> = \<lparr>Year = 2025, Month = 10, Day = 31\<rparr>"
  "nextDay \<lparr>Year = 2025, Month = 10, Day = 31\<rparr> = \<lparr>Year = 2025, Month = 11, Day = 1\<rparr>"
  "nextDay \<lparr>Year = 2025, Month = 11, Day = 1\<rparr> = \<lparr>Year = 2025, Month = 11, Day = 2\<rparr>"
  by (simp_all add: nextDay_def daysIn_def isLeap_def)

theorem cache_hit_refilters_only_witness:
  "fetches (fst (snd (calendar_Update exampleLib 102000000000 (KeyMsg ''right'') True exampleCalendar))) = []
   \<and> cachedEvents (fst (calendar_Update exampleLib 102000000000 (KeyMsg ''right'') True exampleCalendar))
       = cachedEvents exampleCalendar
   \<and> selectedDate (fst (calendar_Update exampleLib 102000000000 (KeyMsg ''right'') True exampleCalendar))
       = \<lparr>Year = 2025, Month = 10, Day = 31\<rparr>
   \<and> events (fst (calendar_Update exampleLib 102000000000 (KeyMsg ''right'') True exampleCalendar)) = []"
proof -
  have h: "\<not> isDataMsg (KeyMsg ''right'')" "cal_state exampleCalendar = StateReady"
    "Time (fst (datepicker_Update exampleLib (KeyMsg ''right'')
        (SelectDate (SetFocus FocusCalendar (DatePicker exampleCalendar)))))
       = \<lparr>Year = 2025, Month = 10, Day = 31\<rparr>"
    "\<not> sameDay \<lparr>Year = 2025, Month = 10, Day = 31\<rparr> (selectedDate exampleCalendar)"
    "cachedEvents exampleCalendar (monthKey \<lparr>Year = 2025, Month = 10, Day = 31\<rparr>) = Some []"
    by (simp_all add: example_right example_nextDay exampleCalendar_def sameDay_def monthKey_october)
  from cache_hit_refilters_only [OF h, of 102000000000] show ?thesis by simp
qed

lemma example_step1:
  "fst (calendar_Update exampleLib 102000000000 (KeyMsg ''right'') True exampleCalendarOct31)
     = exampleCalendarNov1"
  by (simp add: calendar_Update_def calendar_passive_def clock_Update_def navigate_def
        example_right example_nextDay exampleCalendarOct31_def exampleCalendarNov1_def
        exampleCalendar_def sameDay_def monthKey_november isFetching_def Let_def
        time_Since_def maxDuration_def minDuration_def fetchCoolDown_def)

theorem cooldown_defers_fetch_witness:
  "fetches (fst (snd (calendar_Update exampleLib 102000000000 (KeyMsg ''right'') True
                        exampleCalendarOct31))) = []
   \<and> lastFetchTime (fst (calendar_Update exampleLib 102000000000 (KeyMsg ''right'') True
                        exampleCalendarOct31)) = 100000000000
   \<and> fetches (fst (snd (calendar_Update exampleLib 106000000000 (KeyMsg ''right'') True
        (fst (calendar_Update exampleLib 102000000000 (KeyMsg ''right'') True exampleCalendarOct31)))))
       = [\<lparr>Year = 2025, Month = 11, Day = 2\<rparr>]
   \<and> isFetching (fst (calendar_Update exampleLib 106000000000 (KeyMsg ''right'') True
        (fst (calendar_Update exampleLib 102000000000 (KeyMsg ''right'') True exampleCalendarOct31))))
        ''2025-11''
   \<and> lastFetchTime (fst (calendar_Update exampleLib 106000000000 (KeyMsg ''right'') True
        (fst (calendar_Update exampleLib 102000000000 (KeyMsg ''right'') True exampleCalendarOct31))))
       = 106000000000"
proof -
  have a: "\<not> isDataMsg (KeyMsg ''right'')" "cal_state exampleCalendarOct31 = StateReady"
    "Time (fst (datepicker_Update exampleLib (KeyMsg ''right'')
        (SelectDate (SetFocus FocusCalendar (DatePicker exampleCalendarOct31)))))
       = \<lparr>Year = 2025, Month = 11, Day = 1\<rparr>"
    "\<not> sameDay \<lparr>Year = 2025, Month = 11, Day = 1\<rparr> (selectedDate exampleCalendarOct31)"
    "cachedEvents exampleCalendarOct31 (monthKey \<lparr>Year = 2025, Month = 11, Day = 1\<rparr>) = None"
    "\<not> isFetching exampleCalendarOct31 (monthKey \<lparr>Year = 2025, Month = 11, Day = 1\<rparr>)"
    by (simp_all add: example_right example_nextDay exampleCalendarOct31_def exampleCalendar_def
          sameDay_def monthKey_november isFetching_def)
  have b: "cal_state exampleCalendarNov1 = StateReady"
    "Time (fst (datepicker_Update exampleLib (KeyMsg ''right'')
        (SelectDate (SetFocus FocusCalendar (DatePicker exampleCalendarNov1)))))
       = \<lparr>Year = 2025, Month = 11, Day = 2\<rparr>"
    "\<not> sameDay \<lparr>Year = 2025, Month = 11, Day = 2\<rparr> (selectedDate exampleCalendarNov1)"
    "cachedEvents exampleCalendarNov1 (monthKey \<lparr>Year = 2025, Month = 11, Day = 2\<rparr>) = None"
    "\<not> isFetching exampleCalendarNov1 (monthKey \<lparr>Year = 2025, Month = 11, Day = 2\<rparr>)"
    by (simp_all add: example_right nextDay_def daysIn_def isLeap_def exampleCalendarNov1_def
          exampleCalendar_def sameDay_def monthKey_november isFetching_def)
  have t: "lastFetchTime exampleCalendarOct31 = 100000000000"
    "lastFetchTime exampleCalendarNov1 = 100000000000"
    by (simp_all add: exampleCalendarOct31_def exampleCalendarNov1_def exampleCalendar_def)
  from cooldown_defers_fetch [OF a, of 102000000000]
    cooldown_defers_fetch [OF a(1) b, of 106000000000] t
  show ?thesis by (simp add: example_step1 fetchCoolDown_def monthKey_november)
qed

end
